theory Spec2Isabelle
  imports Complex_Main
begin

section \<open>JavaScript values used by the theme manager\<close>

text \<open>
  The theme manager is TypeScript that runs in a browser.  It stores numbers in
  \<^verbatim>\<open>localStorage\<close> as strings (\<^verbatim>\<open>toString\<close>) and reads them back with
  \<^verbatim>\<open>parseInt\<close> and \<^verbatim>\<open>parseFloat\<close>, and it adds the literal \<^verbatim>\<open>0.1\<close> to the zoom
  factor.  These built-ins are modelled after ECMA-262:

  \<^item> a string is a list of code units; the model covers the code units below 256, which
    is what every key and every stored value of this program uses;
  \<^item> a Number is an IEEE 754 binary64 value: \<open>NaN\<close>, the two infinities, or a finite
    value \<open>Fin r\<close> whose rational \<open>r\<close> is exactly representable.  The two zeros are one
    value \<open>Fin 0\<close>: both print as \<^verbatim>\<open>0\<close> and compare equal, and nothing here divides;
  \<^item> every arithmetic result is rounded to the nearest representable value, ties to the
    even significand (\<open>round_double\<close>).
\<close>

datatype number = NaN | PosInf | NegInf | Fin rat

text \<open>\<open>ilog b x\<close> is \<open>\<lfloor>log\<^sub>b x\<rfloor>\<close> for a positive rational \<open>x\<close> and a base \<open>b \<ge> 2\<close>.\<close>

function ilog :: "nat \<Rightarrow> rat \<Rightarrow> int" where
  "ilog b x =
     (if b < 2 then 0
      else if of_nat b \<le> x then ilog b (x / of_nat b) + 1
      else if 0 < x \<and> x < 1 then ilog b (x * of_nat b) - 1
      else 0)"
  by pat_completeness auto
termination
proof (relation "measure (\<lambda>(b, x). if 1 \<le> x then nat \<lfloor>x\<rfloor> else nat \<lceil>1 / x\<rceil> + b)")
  show "wf (measure (\<lambda>(b::nat, x::rat). if 1 \<le> x then nat \<lfloor>x\<rfloor> else nat \<lceil>1 / x\<rceil> + b))"
    by simp
next
  fix b :: nat and x :: rat
  assume b: "\<not> b < 2" and x: "of_nat b \<le> x"
  from b have b2: "(2::rat) \<le> of_nat b"
    by (metis not_less of_nat_le_iff of_nat_numeral)
  with x have x2: "2 \<le> x" by linarith
  have "x / of_nat b \<le> x / 2"
    using b2 x2 by (intro divide_left_mono) auto
  then have "\<lfloor>x / of_nat b\<rfloor> \<le> \<lfloor>x / 2\<rfloor>" by (rule floor_mono)
  moreover have "\<lfloor>x / 2\<rfloor> < \<lfloor>x\<rfloor>" using x2 by linarith
  moreover have "1 \<le> x / of_nat b" using x b2 by (simp add: le_divide_eq)
  ultimately show "((b, x / of_nat b), (b, x))
      \<in> measure (\<lambda>(b, x). if 1 \<le> x then nat \<lfloor>x\<rfloor> else nat \<lceil>1 / x\<rceil> + b)"
    using x2 by auto
next
  fix b :: nat and x :: rat
  assume b: "\<not> b < 2" and "\<not> of_nat b \<le> x" and "0 < x \<and> x < 1"
  then have x: "0 < x" "x < 1" "x < of_nat b" by auto
  from b have b2: "(2::rat) \<le> of_nat b"
    by (metis not_less of_nat_le_iff of_nat_numeral)
  from x have "1 < 1 / x" by simp
  then have c: "2 \<le> \<lceil>1 / x\<rceil>" by linarith
  show "((b, x * of_nat b), (b, x))
      \<in> measure (\<lambda>(b, x). if 1 \<le> x then nat \<lfloor>x\<rfloor> else nat \<lceil>1 / x\<rceil> + b)"
  proof (cases "1 \<le> x * of_nat b")
    case True
    have "x * of_nat b < of_nat b" using x b2 by simp
    then have "\<lfloor>x * of_nat b\<rfloor> < int b"
      by (simp add: floor_less_iff)
    with True x c show ?thesis by auto
  next
    case False
    then have "of_nat b < 1 / x" using x by (simp add: field_simps)
    with b2 have "2 < 1 / x" by linarith
    have "1 / (x * of_nat b) \<le> (1 / x) / 2"
      using b2 x by (simp add: field_simps)
    then have "\<lceil>1 / (x * of_nat b)\<rceil> \<le> \<lceil>(1 / x) / 2\<rceil>" by (rule ceiling_mono)
    moreover have "\<lceil>y / 2\<rceil> < \<lceil>y\<rceil>" if "2 < y" for y :: rat
    proof -
      have a: "y \<le> of_int \<lceil>y\<rceil>" by (rule le_of_int_ceiling)
      from that have "2 < \<lceil>y\<rceil>" by (simp add: less_ceiling_iff)
      then have "3 \<le> \<lceil>y\<rceil>" by simp
      then have b: "(3::rat) \<le> of_int \<lceil>y\<rceil>"
        by (simp only: of_int_le_iff [symmetric, where ?'a = rat] of_int_numeral)
      have "y / 2 \<le> of_int \<lceil>y\<rceil> - 1" using a b by linarith
      then have "y / 2 \<le> of_int (\<lceil>y\<rceil> - 1)" by simp
      then have "\<lceil>y / 2\<rceil> \<le> \<lceil>y\<rceil> - 1" by (simp only: ceiling_le_iff)
      then show ?thesis by simp
    qed
    then have "\<lceil>(1 / x) / 2\<rceil> < \<lceil>1 / x\<rceil>" using \<open>2 < 1 / x\<close> by blast
    ultimately show ?thesis using False x c by auto
  qed
qed

declare ilog.simps [simp del]

text \<open>\<open>scale b e\<close> is \<open>b\<^sup>e\<close> for an integer exponent.\<close>

definition scale :: "nat \<Rightarrow> int \<Rightarrow> rat" where
  "scale b e = (if 0 \<le> e then of_nat b ^ nat e else 1 / of_nat b ^ nat (- e))"

definition round_half_even :: "rat \<Rightarrow> int" where
  "round_half_even x =
     (let f = \<lfloor>x\<rfloor>; d = x - of_int f
      in if d < 1 / 2 then f
         else if 1 / 2 < d then f + 1
         else if even f then f else f + 1)"

text \<open>
  The Number value of a rational (ECMA-262, 6.1.6.1): 53 significant bits, exponent of
  the last place at least \<open>-1074\<close> (subnormals), overflow to an infinity from \<open>2\<^sup>1\<^sup>0\<^sup>2\<^sup>4\<close>.
\<close>

definition round_double :: "rat \<Rightarrow> number" where
  "round_double x =
     (if x = 0 then Fin 0
      else let e = max (ilog 2 \<bar>x\<bar>) (- 1022);
               u = scale 2 (e - 52);
               r = of_int (round_half_even (x / u)) * u
           in if scale 2 1024 \<le> \<bar>r\<bar> then (if 0 < x then PosInf else NegInf) else Fin r)"

text \<open>\<open>+\<close>, unary \<open>-\<close>, binary \<open>-\<close>, \<open><\<close> and \<open>>\<close> on Numbers.\<close>

fun num_add :: "number \<Rightarrow> number \<Rightarrow> number" where
  "num_add NaN _ = NaN"
| "num_add _ NaN = NaN"
| "num_add PosInf NegInf = NaN"
| "num_add NegInf PosInf = NaN"
| "num_add PosInf _ = PosInf"
| "num_add NegInf _ = NegInf"
| "num_add _ PosInf = PosInf"
| "num_add _ NegInf = NegInf"
| "num_add (Fin a) (Fin b) = round_double (a + b)"

fun num_neg :: "number \<Rightarrow> number" where
  "num_neg NaN = NaN"
| "num_neg PosInf = NegInf"
| "num_neg NegInf = PosInf"
| "num_neg (Fin a) = Fin (- a)"

definition num_sub :: "number \<Rightarrow> number \<Rightarrow> number" where
  "num_sub a b = num_add a (num_neg b)"

fun num_lt :: "number \<Rightarrow> number \<Rightarrow> bool" where
  "num_lt NaN _ = False"
| "num_lt _ NaN = False"
| "num_lt PosInf _ = False"
| "num_lt _ NegInf = False"
| "num_lt NegInf _ = True"
| "num_lt _ PosInf = True"
| "num_lt (Fin a) (Fin b) = (a < b)"

definition num_gt :: "number \<Rightarrow> number \<Rightarrow> bool" where
  "num_gt a b = num_lt b a"

subsection \<open>Decimal digits\<close>

definition digit_char :: "nat \<Rightarrow> char" where
  "digit_char d = ''0123456789'' ! d"

definition is_digit :: "char \<Rightarrow> bool" where
  "is_digit c = (c \<in> set ''0123456789'')"

definition digit_val :: "char \<Rightarrow> nat" where
  "digit_val c = length (takeWhile (\<lambda>d. d \<noteq> c) ''0123456789'')"

text \<open>The decimal representation of a natural number, and the value of a digit string.\<close>

fun dec :: "nat \<Rightarrow> string" where
  "dec n = (if n < 10 then [digit_char n] else dec (n div 10) @ [digit_char (n mod 10)])"

declare dec.simps [simp del]

definition digits_value :: "string \<Rightarrow> nat" where
  "digits_value ds = foldl (\<lambda>a c. 10 * a + digit_val c) 0 ds"

text \<open>
  WhiteSpace and LineTerminator code units below 256: TAB, LF, VT, FF, CR, SP, NBSP.
  \<^verbatim>\<open>parseInt\<close> and \<^verbatim>\<open>parseFloat\<close> strip them from the start of their argument.
\<close>

definition is_space :: "char \<Rightarrow> bool" where
  "is_space c = (of_char c \<in> {9, 10, 11, 12, 13, 32, 160 :: nat})"

definition trim_start :: "string \<Rightarrow> string" where
  "trim_start s = dropWhile is_space s"

subsection \<open>Number::toString\<close>

text \<open>
  ECMA-262, 6.1.6.1.20, radix 10.  For a positive finite \<open>x\<close>: integers \<open>n\<close>, \<open>k\<close>, \<open>s\<close>
  with \<open>k \<ge> 1\<close>, \<open>10\<^sup>k\<^sup>-\<^sup>1 \<le> s < 10\<^sup>k\<close>, the Number value of \<open>s \<times> 10\<^sup>n\<^sup>-\<^sup>k\<close> being \<open>x\<close>, and \<open>k\<close> as
  small as possible; of several such \<open>s\<close> the one whose \<open>s \<times> 10\<^sup>n\<^sup>-\<^sup>k\<close> is closest to \<open>x\<close>
  (the standard's recommendation, which the engines follow).

  For a given \<open>k\<close> the only candidates are the two \<open>k\<close>-digit decimals around \<open>x\<close>
  (\<open>cand_lo\<close> and its successor); \<open>shortest_k\<close> tries \<open>k = 1, 2, \<dots>\<close> in turn.  Seventeen
  digits identify every binary64 value, so the search stops long before its bound 21.
\<close>

definition cand_lo :: "rat \<Rightarrow> int \<Rightarrow> nat \<Rightarrow> int" where
  "cand_lo x n k = \<lfloor>x / scale 10 (n - int k)\<rfloor>"

definition digits_ok :: "rat \<Rightarrow> int \<Rightarrow> nat \<Rightarrow> int \<Rightarrow> bool" where
  "digits_ok x n k s = (round_double (of_int s * scale 10 (n - int k)) = Fin x)"

definition pick_digits :: "rat \<Rightarrow> int \<Rightarrow> nat \<Rightarrow> int" where
  "pick_digits x n k =
     (let lo = cand_lo x n k; hi = lo + 1; p = scale 10 (n - int k)
      in if \<not> digits_ok x n k hi then lo
         else if \<not> digits_ok x n k lo then hi
         else if x - of_int lo * p < of_int hi * p - x then lo
         else if of_int hi * p - x < x - of_int lo * p then hi
         else if even lo then lo else hi)"

function shortest_k :: "rat \<Rightarrow> int \<Rightarrow> nat \<Rightarrow> nat" where
  "shortest_k x n k =
     (if 21 \<le> k \<or> digits_ok x n k (cand_lo x n k) \<or> digits_ok x n k (cand_lo x n k + 1)
      then k else shortest_k x n (Suc k))"
  by pat_completeness auto
termination
  by (relation "measure (\<lambda>(x, n, k). 21 - k)") auto

declare shortest_k.simps [simp del]

definition shortest_digits :: "rat \<Rightarrow> int \<times> int \<times> nat" where
  "shortest_digits x =
     (let n = ilog 10 x + 1;
          k = shortest_k x n 1;
          s = pick_digits x n k
      in if s = 10 ^ k then (10 ^ (k - 1), n + 1, k) else (s, n, k))"

definition format_digits :: "int \<times> int \<times> nat \<Rightarrow> string" where
  "format_digits snk =
     (let (s, n, k) = snk; ds = dec (nat s)
      in if int k \<le> n \<and> n \<le> 21 then ds @ replicate (nat (n - int k)) CHR ''0''
         else if 0 < n \<and> n \<le> 21 then take (nat n) ds @ ''.'' @ drop (nat n) ds
         else if - 6 < n \<and> n \<le> 0 then ''0.'' @ replicate (nat (- n)) CHR ''0'' @ ds
         else let e = n - 1;
                  es = (if 0 \<le> e then ''+'' else ''-'') @ dec (nat \<bar>e\<bar>)
              in if k = 1 then ds @ ''e'' @ es
                 else take 1 ds @ ''.'' @ drop 1 ds @ ''e'' @ es)"

fun Number_toString :: "number \<Rightarrow> string" where
  "Number_toString NaN = ''NaN''"
| "Number_toString PosInf = ''Infinity''"
| "Number_toString NegInf = ''-Infinity''"
| "Number_toString (Fin x) =
     (if x = 0 then ''0''
      else if x < 0 then ''-'' @ format_digits (shortest_digits (- x))
      else format_digits (shortest_digits x))"

declare Number_toString.simps [simp del]

subsection \<open>parseInt and parseFloat\<close>

text \<open>A leading sign: whether it is \<^verbatim>\<open>-\<close>, and the rest of the string.\<close>

fun strip_sign :: "string \<Rightarrow> bool \<times> string" where
  "strip_sign [] = (False, [])"
| "strip_sign (c # cs) =
     (if c = CHR ''-'' then (True, cs) else if c = CHR ''+'' then (False, cs) else (False, c # cs))"

text \<open>
  \<^verbatim>\<open>parseInt(string, 10)\<close> (ECMA-262, 19.2.5): leading white space is dropped, then an
  optional sign, then the longest run of decimal digits; no digit gives \<open>NaN\<close>; what
  follows the digits is ignored.
\<close>

definition parseInt :: "string \<Rightarrow> number" where
  "parseInt str =
     (let (neg, s) = strip_sign (trim_start str); z = takeWhile is_digit s
      in if z = [] then NaN
         else round_double (if neg then - of_nat (digits_value z) else of_nat (digits_value z)))"

text \<open>
  \<^verbatim>\<open>parseFloat(string)\<close> (ECMA-262, 19.2.4): the longest prefix of the trimmed string
  that is a StrDecimalLiteral (sign, \<^verbatim>\<open>Infinity\<close> or digits with an optional fraction and
  an optional complete exponent part); no such prefix gives \<open>NaN\<close>.
\<close>

definition exponent_part :: "string \<Rightarrow> int" where
  "exponent_part r =
     (case r of
        [] \<Rightarrow> 0
      | c # t \<Rightarrow>
          if c = CHR ''e'' \<or> c = CHR ''E'' then
            (let (eneg, t') = strip_sign t; ed = takeWhile is_digit t'
             in if ed = [] then 0
                else if eneg then - int (digits_value ed) else int (digits_value ed))
          else 0)"

definition parseFloat :: "string \<Rightarrow> number" where
  "parseFloat str =
     (let (neg, s) = strip_sign (trim_start str)
      in if take 8 s = ''Infinity'' then (if neg then NegInf else PosInf)
         else
           let ip = takeWhile is_digit s; r1 = dropWhile is_digit s;
               (fp, r2) = (case r1 of
                             [] \<Rightarrow> ([], r1)
                           | c # t \<Rightarrow> if c = CHR ''.''
                                      then (takeWhile is_digit t, dropWhile is_digit t)
                                      else ([], r1));
               v = of_nat (digits_value (ip @ fp)) * scale 10 (exponent_part r2 - int (length fp))
           in if ip = [] \<and> fp = [] then NaN
              else round_double (if neg then - v else v))"

text \<open>
  Truthiness of what \<^verbatim>\<open>localStorage.getItem\<close> returns: \<^verbatim>\<open>null\<close> (no entry) and the
  empty string are falsy, every other string is truthy.
\<close>

fun truthy :: "string option \<Rightarrow> bool" where
  "truthy None = False"
| "truthy (Some s) = (s \<noteq> [])"

text \<open>\<^verbatim>\<open>a || b\<close> for a stored string \<open>a\<close> and a string \<open>b\<close>.\<close>

definition js_or :: "string option \<Rightarrow> string \<Rightarrow> string" where
  "js_or a b = (case a of None \<Rightarrow> b | Some s \<Rightarrow> if truthy a then s else b)"

section \<open>The browser environment\<close>

text \<open>
  Everything outside the module that it reads or writes:
  \<^item> \<open>localStorage\<close>: the persisted key/value entries;
  \<^item> \<open>style\<close>: the custom properties set on \<^verbatim>\<open>document.documentElement.style\<close>;
  \<^item> \<open>vanta_count\<close>: how many effect instances \<^verbatim>\<open>window.VANTA.WAVES\<close> has created (the
    next instance gets this number as its identity);
  \<^item> \<open>timers\<close>: the pending \<^verbatim>\<open>setTimeout\<close> callbacks with their due times, in the order
    they were registered, and \<open>clock\<close>, the current time in milliseconds;
  \<^item> \<open>trace\<close>: every call that leaves the module, in order.
\<close>

datatype error = TypeError

text \<open>
  The two arrow functions \<^verbatim>\<open>destroyEffect\<close> passes to \<^verbatim>\<open>setTimeout\<close>: the fade step, and
  the final callback that closes over \<^verbatim>\<open>postAction\<close>.  A caller's \<^verbatim>\<open>postAction\<close> is
  identified by a number.
\<close>

datatype callback = FadeStep | Finish nat

datatype event =
    SetItem string string
  | SetProperty string string
  | VantaWaves nat string nat
  | VantaDestroy nat
  | SetOpacity nat nat
  | Call nat
  | Uncaught error

record world =
  localStorage :: "string \<rightharpoonup> string"
  style :: "string \<rightharpoonup> string"
  vanta_count :: nat
  timers :: "(nat \<times> callback) list"
  clock :: nat
  trace :: "event list"

definition getItem :: "string \<Rightarrow> 'a world_scheme \<Rightarrow> string option" where
  "getItem k w = localStorage w k"

definition setItem :: "string \<Rightarrow> string \<Rightarrow> 'a world_scheme \<Rightarrow> 'a world_scheme" where
  "setItem k v w =
     trace_update (\<lambda>t. t @ [SetItem k v]) (localStorage_update (\<lambda>m. m(k \<mapsto> v)) w)"

text \<open>
  \<^verbatim>\<open>style.setProperty(name, value)\<close> for a custom property (every name used here starts
  with \<^verbatim>\<open>--\<close>): the value is stored as given, and an empty value removes the property.
\<close>

definition setProperty :: "string \<Rightarrow> string \<Rightarrow> 'a world_scheme \<Rightarrow> 'a world_scheme" where
  "setProperty n v w =
     trace_update (\<lambda>t. t @ [SetProperty n v])
       (style_update (\<lambda>s. if v = [] then s(n := None) else s(n \<mapsto> v)) w)"

definition setTimeout :: "callback \<Rightarrow> nat \<Rightarrow> 'a world_scheme \<Rightarrow> 'a world_scheme" where
  "setTimeout cb delay w = timers_update (\<lambda>ts. ts @ [(clock w + delay, cb)]) w"

section \<open>The module\<close>

subsection \<open>WavesEffect\<close>

text \<open>
  An effect instance made by \<^verbatim>\<open>VANTA.WAVES(config)\<close>: its identity, the \<^verbatim>\<open>el\<close> and \<^verbatim>\<open>color\<close>
  of the config it was made from (the other config entries are constants), and the inline
  \<^verbatim>\<open>style.opacity\<close> of its \<^verbatim>\<open>renderer.domElement\<close>.  The opacity is a string slot of the
  DOM: \<open>None\<close> is the empty string (never assigned), \<open>Some k\<close> is the value reached from
  \<^verbatim>\<open>1.0\<close> by \<open>k\<close> subtractions of \<^verbatim>\<open>subtractionFactor\<close>.  The model counts the subtractions
  and leaves the numeral the browser keeps for them open.
\<close>

record vanta_effect =
  vid :: nat
  vel :: string
  vcolor :: nat
  opacity :: "nat option"

record WavesEffect =
  element :: string
  config_color :: "nat option"
  effect :: "vanta_effect option"
  effectDelay :: nat
  effectInterval :: nat

definition WavesEffect_new :: "string \<Rightarrow> WavesEffect" where
  "WavesEffect_new el =
     \<lparr>element = el, config_color = None, effect = None, effectDelay = 50, effectInterval = 10\<rparr>"

subsection \<open>StyleProperty and ThemeAccentProperty\<close>

record StyleProperty =
  property :: string
  "value" :: string

record ThemeAccentProperty = StyleProperty +
  hue :: number
  saturation :: number
  lightness :: number

text \<open>The template literal \<^verbatim>\<open>`hsl(${hue}, ${saturation}%, ${lightness}%)`\<close>.\<close>

definition hsl :: "number \<Rightarrow> number \<Rightarrow> number \<Rightarrow> string" where
  "hsl h s l =
     ''hsl('' @ Number_toString h @ '', '' @ Number_toString s @ ''%, '' @ Number_toString l @ ''%)''"

definition ThemeAccentProperty_new :: "string \<Rightarrow> number \<Rightarrow> ThemeAccentProperty" where
  "ThemeAccentProperty_new prop h =
     (let saturation = Fin 100; lightness = Fin 60
      in \<lparr>property = prop, value = hsl h saturation lightness,
          hue = h, saturation = saturation, lightness = lightness\<rparr>)"

text \<open>\<^verbatim>\<open>update(hue = this.hue)\<close>: \<open>None\<close> is the omitted argument.\<close>

definition update :: "number option \<Rightarrow> ThemeAccentProperty \<Rightarrow> ThemeAccentProperty" where
  "update arg this =
     (let h = (case arg of None \<Rightarrow> hue this | Some h \<Rightarrow> h)
      in this\<lparr>value := hsl h (saturation this) (lightness this), hue := h\<rparr>)"

subsection \<open>Theme, LightTheme, DarkTheme\<close>

record Theme =
  hueKey :: string
  backgroundEffectColor :: nat
  iconFilter :: StyleProperty
  themeAccent :: ThemeAccentProperty
  fontColor :: StyleProperty
  baseColor :: StyleProperty
  darkAccent :: StyleProperty
  midAccent :: StyleProperty
  brightAccent :: StyleProperty

text \<open>
  \<^verbatim>\<open>getAccentHue\<close> only reads \<^verbatim>\<open>this.hueKey\<close>, which is its first argument here: the
  subclasses call it while their fields are still being initialised.
\<close>

definition getAccentHue :: "string \<Rightarrow> 'a world_scheme \<Rightarrow> number" where
  "getAccentHue this_hueKey w =
     (let stored = getItem this_hueKey w
      in case stored of
           None \<Rightarrow> Fin 0
         | Some s \<Rightarrow> if truthy stored then parseInt s else Fin 0)"

definition setProp :: "'b StyleProperty_scheme \<Rightarrow> 'a world_scheme \<Rightarrow> 'a world_scheme" where
  "setProp styleProp w = setProperty (property styleProp) (value styleProp) w"

definition setAccentHue :: "number \<Rightarrow> Theme \<Rightarrow> 'a world_scheme \<Rightarrow> Theme \<times> 'a world_scheme" where
  "setAccentHue h this w =
     (let this1 = this\<lparr>themeAccent := update (Some h) (themeAccent this)\<rparr>;
          w1 = setProp (themeAccent this1) w;
          w2 = setItem (hueKey this1) (Number_toString h) w1
      in (this1, w2))"

definition setStyleProperties :: "Theme \<Rightarrow> 'a world_scheme \<Rightarrow> 'a world_scheme" where
  "setStyleProperties this w =
     setProp (brightAccent this)
       (setProp (midAccent this)
         (setProp (darkAccent this)
           (setProp (baseColor this)
             (setProp (fontColor this)
               (setProp (themeAccent this)
                 (setProp (iconFilter this) w))))))"

definition LightTheme :: "'a world_scheme \<Rightarrow> Theme" where
  "LightTheme w =
     \<lparr>hueKey = ''light-accent-hue'',
      backgroundEffectColor = 0x9b9b9b,
      iconFilter = \<lparr>property = ''--icon-filter'', value = ''brightness(100%)''\<rparr>,
      themeAccent = ThemeAccentProperty_new ''--theme-accent'' (getAccentHue ''light-accent-hue'' w),
      fontColor = \<lparr>property = ''--font-color'', value = ''#292929''\<rparr>,
      baseColor = \<lparr>property = ''--base-color'', value = ''#f5f5f5''\<rparr>,
      darkAccent = \<lparr>property = ''--dark-accent'', value = ''#9b9b9b''\<rparr>,
      midAccent = \<lparr>property = ''--mid-accent'', value = ''#efefef''\<rparr>,
      brightAccent = \<lparr>property = ''--bright-accent'', value = ''#ffffff''\<rparr>\<rparr>"

definition DarkTheme :: "'a world_scheme \<Rightarrow> Theme" where
  "DarkTheme w =
     \<lparr>hueKey = ''dark-accent-hue'',
      backgroundEffectColor = 0x202020,
      iconFilter = \<lparr>property = ''--icon-filter'', value = ''brightness(250%)''\<rparr>,
      themeAccent = ThemeAccentProperty_new ''--theme-accent'' (getAccentHue ''dark-accent-hue'' w),
      fontColor = \<lparr>property = ''--font-color'', value = ''#eaeaea''\<rparr>,
      baseColor = \<lparr>property = ''--base-color'', value = ''#454545''\<rparr>,
      darkAccent = \<lparr>property = ''--dark-accent'', value = ''#3c3c3c''\<rparr>,
      midAccent = \<lparr>property = ''--mid-accent'', value = ''#484848''\<rparr>,
      brightAccent = \<lparr>property = ''--bright-accent'', value = ''#515151''\<rparr>\<rparr>"

subsection \<open>AppTheme\<close>

text \<open>
  \<^verbatim>\<open>this.theme.themes\<close> is an object literal with the own keys \<^verbatim>\<open>light\<close> and \<^verbatim>\<open>dark\<close>.
  Reading \<^verbatim>\<open>themes[mode]\<close> for another string falls through to \<^verbatim>\<open>Object.prototype\<close>,
  whose members (functions, and the prototype itself for \<^verbatim>\<open>__proto__\<close>) are all truthy and
  have no \<^verbatim>\<open>setStyleProperties\<close>; for every other string the result is \<^verbatim>\<open>undefined\<close>.
\<close>

datatype theme_id = light | dark

datatype selected = Undefined | ThemeObj theme_id | ProtoMember string

definition theme_keys :: "string list" where
  "theme_keys = [''light'', ''dark'']"

definition object_prototype_keys :: "string list" where
  "object_prototype_keys =
     [''constructor'', ''hasOwnProperty'', ''isPrototypeOf'', ''propertyIsEnumerable'',
      ''toLocaleString'', ''toString'', ''valueOf'', ''__proto__'',
      ''__defineGetter__'', ''__defineSetter__'', ''__lookupGetter__'', ''__lookupSetter__'']"

definition themes_lookup :: "string \<Rightarrow> selected" where
  "themes_lookup mode =
     (if mode = ''light'' then ThemeObj light
      else if mode = ''dark'' then ThemeObj dark
      else if mode \<in> set object_prototype_keys then ProtoMember mode
      else Undefined)"

record AppTheme =
  themes_light :: Theme
  themes_dark :: Theme
  theme_selected :: selected
  effect_key :: string
  effect_mode :: string
  effect_selected :: bool
  zoom_key :: string
  zoom_factor :: number
  zoom_step :: number
  zoom_min :: number
  zoom_max :: number

text \<open>
  The state of the page: the environment, the one \<open>WavesEffect\<close> object (made by the
  field initialiser of \<open>AppTheme\<close>; the timer callbacks keep it alive after \<open>AppTheme\<close> has
  deleted its reference), and the \<open>AppTheme\<close> object.  \<open>effect_selected\<close> says whether the
  property \<^verbatim>\<open>effect.selected\<close> still refers to the \<open>WavesEffect\<close> object.
\<close>

record state = world +
  waves :: WavesEffect
  app :: AppTheme

definition get_theme :: "theme_id \<Rightarrow> AppTheme \<Rightarrow> Theme" where
  "get_theme t a = (case t of light \<Rightarrow> themes_light a | dark \<Rightarrow> themes_dark a)"

definition put_theme :: "theme_id \<Rightarrow> Theme \<Rightarrow> AppTheme \<Rightarrow> AppTheme" where
  "put_theme t th a = (case t of light \<Rightarrow> a\<lparr>themes_light := th\<rparr> | dark \<Rightarrow> a\<lparr>themes_dark := th\<rparr>)"

text \<open>\<^verbatim>\<open>WavesEffect.createEffect(props)\<close>, with \<^verbatim>\<open>props['color']\<close> as its argument.\<close>

definition createEffect :: "nat \<Rightarrow> state \<Rightarrow> state" where
  "createEffect props_color st =
     (let c = (if props_color \<noteq> 0 then props_color else 0x00000);
          inst = \<lparr>vid = vanta_count st, vel = element (waves st), vcolor = c, opacity = None\<rparr>
      in st\<lparr>vanta_count := Suc (vanta_count st),
            trace := trace st @ [VantaWaves (vid inst) (vel inst) c],
            waves := (waves st)\<lparr>config_color := Some c, effect := Some inst\<rparr>\<rparr>)"

text \<open>
  \<^verbatim>\<open>WavesEffect.destroyEffect(postAction)\<close>: the loop registers one fade step for every
  \<open>i\<close> from 1 to \<open>effectInterval\<close>, due after \<open>effectDelay * i\<close>, then the final callback, due
  after \<open>effectDelay * effectInterval\<close>.  Nothing else happens during the call.
\<close>

definition WavesEffect_destroyEffect :: "nat \<Rightarrow> state \<Rightarrow> state" where
  "WavesEffect_destroyEffect postAction st =
     (let this = waves st;
          st1 = fold (\<lambda>i. setTimeout FadeStep (effectDelay this * i)) [1..<Suc (effectInterval this)] st
      in setTimeout (Finish postAction) (effectDelay this * effectInterval this) st1)"

text \<open>
  The constructor, after the field initialisers.  A \<^verbatim>\<open>TypeError\<close> is thrown where the
  code calls a method of \<^verbatim>\<open>undefined\<close> or calls something that is not a function; it
  leaves the constructor before anything has been written.
\<close>

definition AppTheme_constructor :: "world \<Rightarrow> error + state" where
  "AppTheme_constructor w =
     (let this = \<lparr>themes_light = LightTheme w, themes_dark = DarkTheme w,
                  theme_selected = Undefined,
                  effect_key = ''mode'', effect_mode = theme_keys ! 0, effect_selected = True,
                  zoom_key = ''zoom'', zoom_factor = Fin 1, zoom_step = round_double (1 / 10),
                  zoom_min = Fin 1, zoom_max = Fin 2\<rparr>;
          st = \<lparr>localStorage = localStorage w, style = style w, vanta_count = vanta_count w,
                timers = timers w, clock = clock w, trace = trace w,
                waves = WavesEffect_new ''#perceive'', app = this\<rparr>;
          stored = getItem (effect_key this) st;
          mode = js_or stored (effect_mode this);
          sel = themes_lookup mode;
          this1 = this\<lparr>effect_mode := mode, theme_selected := sel\<rparr>
      in case sel of
           Undefined \<Rightarrow> Inl TypeError
         | ProtoMember m \<Rightarrow> Inl TypeError
         | ThemeObj t \<Rightarrow>
             let st1 = setStyleProperties (get_theme t this1) (st\<lparr>app := this1\<rparr>);
                 st2 = createEffect (backgroundEffectColor (get_theme t this1)) st1;
                 zoomFactor = getItem (zoom_key this1) st2;
                 factor = (case zoomFactor of None \<Rightarrow> zoom_factor this1
                           | Some z \<Rightarrow> if truthy zoomFactor then parseFloat z else zoom_factor this1)
             in Inr (st2\<lparr>app := (app st2)\<lparr>zoom_factor := factor\<rparr>\<rparr>))"

text \<open>
  The methods.  One that can throw returns \<open>Inl\<close> with the error and the state as the
  exception leaves it (what was assigned before the throw stays assigned).
\<close>

definition isEffectActive :: "state \<Rightarrow> bool" where
  "isEffectActive st = effect_selected (app st)"

definition destroyEffect :: "nat \<Rightarrow> state \<Rightarrow> (error \<times> state) + state" where
  "destroyEffect postAction st =
     (if effect_selected (app st)
      then let st1 = WavesEffect_destroyEffect postAction st
           in Inr (st1\<lparr>app := (app st1)\<lparr>effect_selected := False\<rparr>\<rparr>)
      else Inl (TypeError, st))"

definition getMode :: "state \<Rightarrow> string" where
  "getMode st = effect_mode (app st)"

definition setTheme :: "string \<Rightarrow> state \<Rightarrow> (error \<times> state) + state" where
  "setTheme mode st =
     (case themes_lookup mode of
        Undefined \<Rightarrow> Inr st
      | ProtoMember m \<Rightarrow>
          Inl (TypeError, st\<lparr>app := (app st)\<lparr>effect_mode := mode, theme_selected := ProtoMember m\<rparr>\<rparr>)
      | ThemeObj t \<Rightarrow>
          let st1 = st\<lparr>app := (app st)\<lparr>effect_mode := mode, theme_selected := ThemeObj t\<rparr>\<rparr>;
              newTheme = get_theme t (app st1);
              st2 = setStyleProperties newTheme st1
          in if isEffectActive st2 then
               (case effect (waves st2) of
                  None \<Rightarrow> Inl (TypeError, st2)
                | Some inst \<Rightarrow>
                    let st3 = st2\<lparr>trace := trace st2 @ [VantaDestroy (vid inst)]\<rparr>;
                        st4 = st3\<lparr>waves := (waves st3)\<lparr>effect := None\<rparr>\<rparr>;
                        st5 = createEffect (backgroundEffectColor newTheme) st4
                    in Inr (setItem (effect_key (app st5)) (effect_mode (app st5)) st5))
             else Inr (setItem (effect_key (app st2)) (effect_mode (app st2)) st2))"

definition setThemeAccentHue :: "number \<Rightarrow> state \<Rightarrow> (error \<times> state) + state" where
  "setThemeAccentHue h st =
     (case theme_selected (app st) of
        ThemeObj t \<Rightarrow>
          let (th, st1) = setAccentHue h (get_theme t (app st)) st
          in Inr (st1\<lparr>app := put_theme t th (app st1)\<rparr>)
      | _ \<Rightarrow> Inl (TypeError, st))"

definition getThemeAccentHue :: "state \<Rightarrow> error + number" where
  "getThemeAccentHue st =
     (case theme_selected (app st) of
        ThemeObj t \<Rightarrow> Inr (getAccentHue (hueKey (get_theme t (app st))) st)
      | _ \<Rightarrow> Inl TypeError)"

definition getZoomFactor :: "state \<Rightarrow> number" where
  "getZoomFactor st = zoom_factor (app st)"

definition zoomIn :: "state \<Rightarrow> state" where
  "zoomIn st =
     (if num_lt (zoom_factor (app st)) (zoom_max (app st)) then
        let st1 = st\<lparr>app := (app st)\<lparr>zoom_factor := num_add (zoom_factor (app st)) (zoom_step (app st))\<rparr>\<rparr>
        in setItem (zoom_key (app st1)) (Number_toString (zoom_factor (app st1))) st1
      else st)"

definition zoomOut :: "state \<Rightarrow> state" where
  "zoomOut st =
     (if num_gt (zoom_factor (app st)) (zoom_min (app st)) then
        let st1 = st\<lparr>app := (app st)\<lparr>zoom_factor := num_sub (zoom_factor (app st)) (zoom_step (app st))\<rparr>\<rparr>
        in setItem (zoom_key (app st1)) (Number_toString (zoom_factor (app st1))) st1
      else st)"

subsection \<open>The timer callbacks and the event loop\<close>

text \<open>
  The fade step and the final callback of \<^verbatim>\<open>WavesEffect.destroyEffect\<close>, run on the
  \<open>WavesEffect\<close> object they close over.  Reading a property of \<^verbatim>\<open>this.effect\<close> when the
  effect has been deleted throws; an exception that leaves a callback is reported and the
  event loop goes on.
\<close>

fun run_callback :: "callback \<Rightarrow> state \<Rightarrow> state" where
  "run_callback FadeStep st =
     (case effect (waves st) of
        None \<Rightarrow> st\<lparr>trace := trace st @ [Uncaught TypeError]\<rparr>
      | Some inst \<Rightarrow>
          let k = (case opacity inst of None \<Rightarrow> 1 | Some k \<Rightarrow> Suc k)
          in st\<lparr>trace := trace st @ [SetOpacity (vid inst) k],
                waves := (waves st)\<lparr>effect := Some (inst\<lparr>opacity := Some k\<rparr>)\<rparr>\<rparr>)"
| "run_callback (Finish postAction) st =
     (case effect (waves st) of
        None \<Rightarrow> st\<lparr>trace := trace st @ [Uncaught TypeError]\<rparr>
      | Some inst \<Rightarrow>
          st\<lparr>trace := trace st @ [VantaDestroy (vid inst), Call postAction],
             waves := (waves st)\<lparr>effect := None\<rparr>\<rparr>)"

text \<open>
  The next timer to fire is the one with the least due time, and of several with the same
  due time the one registered first (HTML, timer initialisation steps).
\<close>

fun pick :: "(nat \<times> 'a) list \<Rightarrow> ((nat \<times> 'a) \<times> (nat \<times> 'a) list) option" where
  "pick [] = None"
| "pick (t # ts) =
     (case pick ts of
        None \<Rightarrow> Some (t, [])
      | Some (m, rest) \<Rightarrow> if fst t \<le> fst m then Some (t, ts) else Some (m, t # rest))"

definition fire_next :: "state \<Rightarrow> state" where
  "fire_next st =
     (case pick (timers st) of
        None \<Rightarrow> st
      | Some ((due, cb), rest) \<Rightarrow> run_callback cb (st\<lparr>timers := rest, clock := max (clock st) due\<rparr>))"





subsection \<open>What the page can do\<close>

text \<open>The calls \<open>setStyleProperties\<close> makes, in order.\<close>

definition style_events :: "Theme \<Rightarrow> event list" where
  "style_events th =
     [SetProperty (property (iconFilter th)) (value (iconFilter th)),
      SetProperty (property (themeAccent th)) (value (themeAccent th)),
      SetProperty (property (fontColor th)) (value (fontColor th)),
      SetProperty (property (baseColor th)) (value (baseColor th)),
      SetProperty (property (darkAccent th)) (value (darkAccent th)),
      SetProperty (property (midAccent th)) (value (midAccent th)),
      SetProperty (property (brightAccent th)) (value (brightAccent th))]"

text \<open>
  The states of a page that loads the module once: \<open>AppTheme\<close> is constructed on a page
  with no timer pending, and then its public methods are called and timers fire, in any
  order.  A method that throws leaves the state it had reached.
\<close>

inductive reachable :: "state \<Rightarrow> bool" where
  start: "AppTheme_constructor w = Inr st \<Longrightarrow> timers w = [] \<Longrightarrow> reachable st"
| setTheme_returns: "reachable st \<Longrightarrow> setTheme m st = Inr st' \<Longrightarrow> reachable st'"
| setTheme_throws: "reachable st \<Longrightarrow> setTheme m st = Inl (e, st') \<Longrightarrow> reachable st'"
| setThemeAccentHue_returns:
    "reachable st \<Longrightarrow> setThemeAccentHue h st = Inr st' \<Longrightarrow> reachable st'"
| setThemeAccentHue_throws:
    "reachable st \<Longrightarrow> setThemeAccentHue h st = Inl (e, st') \<Longrightarrow> reachable st'"
| zoomIn: "reachable st \<Longrightarrow> reachable (zoomIn st)"
| zoomOut: "reachable st \<Longrightarrow> reachable (zoomOut st)"
| destroyEffect_returns: "reachable st \<Longrightarrow> destroyEffect p st = Inr st' \<Longrightarrow> reachable st'"
| destroyEffect_throws: "reachable st \<Longrightarrow> destroyEffect p st = Inl (e, st') \<Longrightarrow> reachable st'"
| timer_fires: "reachable st \<Longrightarrow> timers st \<noteq> [] \<Longrightarrow> reachable (fire_next st)"

text \<open>
  What holds in every such state: while \<open>AppTheme\<close> holds the effect object, no timer is
  pending and the effect has an instance, made earlier and tinted for the selected theme;
  and the selected theme is what the registry gives for the current mode.
\<close>

definition effect_invariant :: "state \<Rightarrow> bool" where
  "effect_invariant st =
     ((effect_selected (app st) \<longrightarrow>
         timers st = [] \<and>
         (\<exists>inst. effect (waves st) = Some inst \<and> vid inst < vanta_count st \<and>
            (\<forall>t. theme_selected (app st) = ThemeObj t \<longrightarrow>
               vcolor inst = backgroundEffectColor (get_theme t (app st))))) \<and>
      theme_selected (app st) = themes_lookup (effect_mode (app st)))"

text \<open>A page that has never been visited: nothing stored, nothing set, no timer.\<close>

definition empty_world :: world where
  "empty_world =
     \<lparr>localStorage = Map.empty, style = Map.empty, vanta_count = 0,
      timers = [], clock = 0, trace = []\<rparr>"

section \<open>Evaluating the number functions\<close>

lemma floor_numeral_div: "\<lfloor>numeral a / numeral b :: rat\<rfloor> = numeral a div numeral b"
  using floor_divide_of_int_eq [of "numeral a" "numeral b", where ?'a = rat] by simp

lemma floor_neg_numeral_div:
  "\<lfloor>- (numeral a / numeral b) :: rat\<rfloor> = (- numeral a) div numeral b"
  using floor_divide_of_int_eq [of "- numeral a" "numeral b", where ?'a = rat] by simp

lemma replicate_numeral: "replicate (numeral v) x = x # replicate (numeral v - 1) x"
  by (simp add: numeral_eq_Suc)

lemmas number_eval = round_double_def round_half_even_def scale_def
  floor_numeral_div floor_neg_numeral_div ilog.simps

lemmas toString_eval = Number_toString.simps shortest_digits_def shortest_k.simps
  pick_digits_def cand_lo_def digits_ok_def format_digits_def dec.simps digit_char_def
  replicate_numeral

lemmas parse_eval = parseInt_def parseFloat_def exponent_part_def trim_start_def is_space_def
  is_digit_def digits_value_def digit_val_def

lemma toString_0: "Number_toString (Fin 0) = ''0''"
  by (simp add: Number_toString.simps)

lemma toString_60: "Number_toString (Fin 60) = ''60''"
  by (simp add: number_eval toString_eval)

lemma toString_100: "Number_toString (Fin 100) = ''100''"
  by (simp add: number_eval toString_eval)

lemma hsl_100_60: "hsl h (Fin 100) (Fin 60) = ''hsl('' @ Number_toString h @ '', 100%, 60%)''"
  by (simp add: hsl_def toString_60 toString_100)

section \<open>The accent colour string\<close>

lemma saturation_update: "saturation (update arg t) = saturation t"
  by (simp add: update_def Let_def)

lemma lightness_update: "lightness (update arg t) = lightness t"
  by (simp add: update_def Let_def)

lemma fold_update_constants:
  "saturation (fold update args t) = saturation t \<and> lightness (fold update args t) = lightness t"
  by (induction args arbitrary: t) (simp_all add: saturation_update lightness_update)

text \<open>
  C5 (as amended).  For every hue \<open>h\<close>, the \<open>value\<close> of a \<open>ThemeAccentProperty\<close> constructed
  with \<open>h\<close>, and its \<open>value\<close> after \<open>update(h)\<close> following any earlier \<open>update\<close> calls, is the
  string \<^verbatim>\<open>hsl(h, 100%, 60%)\<close> with the decimal \<^verbatim>\<open>toString\<close> of \<open>h\<close> substituted in: a comma
  and one space separate the three components.
\<close>

theorem accent_value_is_hsl:
  "value (ThemeAccentProperty_new p h) = ''hsl('' @ Number_toString h @ '', 100%, 60%)'' \<and>
   value (update (Some h) (fold update args (ThemeAccentProperty_new p h0)))
     = ''hsl('' @ Number_toString h @ '', 100%, 60%)'' \<and>
   hue (update (Some h) (fold update args (ThemeAccentProperty_new p h0))) = h"
proof -
  have new: "value (ThemeAccentProperty_new p h) = hsl h (Fin 100) (Fin 60)"
    by (simp add: ThemeAccentProperty_new_def Let_def)
  have sl: "saturation (fold update args (ThemeAccentProperty_new p h0)) = Fin 100"
    "lightness (fold update args (ThemeAccentProperty_new p h0)) = Fin 60"
    by (simp_all add: fold_update_constants ThemeAccentProperty_new_def Let_def)
  have upd: "value (update (Some h) (fold update args (ThemeAccentProperty_new p h0)))
      = hsl h (Fin 100) (Fin 60)"
    by (simp add: update_def Let_def sl)
  have "hue (update (Some h) (fold update args (ThemeAccentProperty_new p h0))) = h"
    by (simp add: update_def Let_def)
  with new upd show ?thesis by (simp only: hsl_100_60 simp_thms)
qed

text \<open>
  C5 as the spec states it fails already for \<open>h = 0\<close>: the code's string has a space after
  each comma, the spec's \<^verbatim>\<open>hsl(0,100%,60%)\<close> has none.
\<close>

theorem accent_value_has_spaces:
  "value (ThemeAccentProperty_new ''--theme-accent'' (Fin 0)) = ''hsl(0, 100%, 60%)'' \<and>
   value (ThemeAccentProperty_new ''--theme-accent'' (Fin 0)) \<noteq> ''hsl(0,100%,60%)''"
  by (simp add: ThemeAccentProperty_new_def Let_def hsl_100_60 toString_0)

section \<open>Start-up\<close>

lemmas ctor_defs = AppTheme_constructor_def getItem_def createEffect_def setStyleProperties_def
  setProp_def setProperty_def themes_lookup_def theme_keys_def get_theme_def js_or_def

text \<open>On a page that has never been visited the constructor returns.\<close>

lemma constructor_empty_world:
  "\<exists>st. AppTheme_constructor empty_world = Inr st \<and> getMode st = ''light''"
  by (simp add: ctor_defs empty_world_def getMode_def Let_def)

text \<open>
  C7.  When \<open>AppTheme\<close> is constructed with nothing in storage, the constructor returns,
  the mode is the first key of the theme registry, which is \<^verbatim>\<open>light\<close>, and the zoom factor
  is 1.
\<close>

theorem fresh_start_defaults:
  "localStorage w = Map.empty \<Longrightarrow>
     \<exists>st. AppTheme_constructor w = Inr st \<and> getMode st = theme_keys ! 0 \<and>
          theme_keys ! 0 = ''light'' \<and> getZoomFactor st = Fin 1"
  by (simp add: ctor_defs getMode_def getZoomFactor_def Let_def)

theorem fresh_start_defaults_witness:
  "localStorage empty_world = Map.empty \<and>
   (\<exists>st. AppTheme_constructor empty_world = Inr st \<and> getMode st = ''light'' \<and>
         getZoomFactor st = Fin 1)"
  using fresh_start_defaults [of empty_world] by (auto simp add: empty_world_def)

text \<open>
  C1 (as amended).  For every persisted value that is missing (no entry, or the empty
  string) the read falls back to a hardcoded default: \<open>getAccentHue\<close> returns 0 when no
  hue is stored; when no mode is stored the constructor returns with the first registered
  theme as mode; and when no zoom value is stored, every \<open>AppTheme\<close> the constructor
  returns has zoom factor 1.  The constructor returns whenever the stored mode is missing
  or is a key of the theme registry.
\<close>

theorem missing_values_fall_back:
  "(\<not> truthy (getItem k w) \<longrightarrow> getAccentHue k w = Fin 0) \<and>
   (\<not> truthy (getItem ''mode'' w) \<longrightarrow>
      (\<exists>st. AppTheme_constructor w = Inr st \<and> getMode st = theme_keys ! 0)) \<and>
   (\<not> truthy (getItem ''zoom'' w) \<longrightarrow>
      (\<forall>st. AppTheme_constructor w = Inr st \<longrightarrow> getZoomFactor st = Fin 1)) \<and>
   (\<not> truthy (getItem ''mode'' w) \<or> (\<exists>m \<in> set theme_keys. getItem ''mode'' w = Some m) \<longrightarrow>
      (\<exists>st. AppTheme_constructor w = Inr st))"
proof (intro conjI impI allI)
  assume "\<not> truthy (getItem k w)"
  then show "getAccentHue k w = Fin 0"
    by (cases "getItem k w") (simp_all add: getAccentHue_def)
next
  assume "\<not> truthy (getItem ''mode'' w)"
  then show "\<exists>st. AppTheme_constructor w = Inr st \<and> getMode st = theme_keys ! 0"
    by (cases "localStorage w ''mode''") (simp_all add: ctor_defs getMode_def Let_def)
next
  fix st
  assume "\<not> truthy (getItem ''zoom'' w)" and "AppTheme_constructor w = Inr st"
  then show "getZoomFactor st = Fin 1"
    by (cases "localStorage w ''zoom''")
       (auto simp add: AppTheme_constructor_def getItem_def createEffect_def
          setStyleProperties_def setProp_def setProperty_def getZoomFactor_def Let_def js_or_def
          split: selected.splits)
next
  assume "\<not> truthy (getItem ''mode'' w) \<or> (\<exists>m \<in> set theme_keys. getItem ''mode'' w = Some m)"
  then show "\<exists>st. AppTheme_constructor w = Inr st"
    by (cases "localStorage w ''mode''") (auto simp add: ctor_defs Let_def)
qed

text \<open>
  C1 (as amended), at a concrete input: the page with nothing stored.
\<close>

theorem missing_values_fall_back_witness:
  "getAccentHue ''light-accent-hue'' empty_world = Fin 0 \<and>
   (\<exists>st. AppTheme_constructor empty_world = Inr st \<and> getMode st = ''light'' \<and>
         getZoomFactor st = Fin 1)"
  using missing_values_fall_back [of "''light-accent-hue''" empty_world]
  by (auto simp add: empty_world_def getItem_def theme_keys_def)

text \<open>
  C1 as the spec states it fails for a value that is stored but invalid: the hue
  \<^verbatim>\<open>'abc'\<close> is read as \<open>NaN\<close>, and with the zoom value \<^verbatim>\<open>'abc'\<close> stored the constructor returns
  with the zoom factor \<open>NaN\<close>; neither is a default.
\<close>

lemma parseInt_abc: "parseInt ''abc'' = NaN"
  by (simp add: parse_eval)

lemma parseFloat_abc: "parseFloat ''abc'' = NaN"
  by (simp add: parse_eval)

theorem invalid_values_not_defaulted:
  "getAccentHue ''light-accent-hue''
     (empty_world\<lparr>localStorage := [''light-accent-hue'' \<mapsto> ''abc'']\<rparr>) = NaN \<and>
   map_sum id getZoomFactor
     (AppTheme_constructor (empty_world\<lparr>localStorage := [''zoom'' \<mapsto> ''abc'']\<rparr>)) = Inr NaN"
  by (simp add: ctor_defs getAccentHue_def getZoomFactor_def object_prototype_keys_def
        empty_world_def Let_def parseInt_abc parseFloat_abc)

section \<open>Destroying the effect\<close>

lemma fold_setTimeout:
  "fold (\<lambda>i. setTimeout cb (d * i)) js st
     = st\<lparr>timers := timers st @ map (\<lambda>i. (clock st + d * i, cb)) js\<rparr>"
  by (induction js arbitrary: st) (simp_all add: setTimeout_def)

lemma WavesEffect_destroyEffect_eq:
  "WavesEffect_destroyEffect p st =
     st\<lparr>timers := timers st
            @ map (\<lambda>i. (clock st + effectDelay (waves st) * i, FadeStep))
                [1..<Suc (effectInterval (waves st))]
            @ [(clock st + effectDelay (waves st) * effectInterval (waves st), Finish p)]\<rparr>"
  by (simp add: WavesEffect_destroyEffect_def fold_setTimeout setTimeout_def Let_def)

text \<open>
  C9.  When the effect is active, \<open>AppTheme.destroyEffect(postAction)\<close> returns, and in the
  state it returns \<open>isEffectActive()\<close> is false although nothing of the fade has happened
  yet: no call has left the module (the trace is unchanged, so \<open>postAction\<close> has not run),
  the effect object and its opacity are untouched, no time has passed, and every fade step
  and the final callback are still pending.
\<close>

theorem destroyEffect_clears_handle_at_once:
  "isEffectActive st \<Longrightarrow>
     \<exists>st1. destroyEffect p st = Inr st1 \<and> \<not> isEffectActive st1 \<and>
       trace st1 = trace st \<and> waves st1 = waves st \<and> clock st1 = clock st \<and>
       timers st1 = timers st
            @ map (\<lambda>i. (clock st + effectDelay (waves st) * i, FadeStep))
                [1..<Suc (effectInterval (waves st))]
            @ [(clock st + effectDelay (waves st) * effectInterval (waves st), Finish p)]"
  by (simp add: destroyEffect_def isEffectActive_def WavesEffect_destroyEffect_eq)

section \<open>Switching the theme\<close>

text \<open>
  C6, at the failing input.  \<^verbatim>\<open>constructor\<close> is not a key of the theme registry, yet
  \<^verbatim>\<open>themes['constructor']\<close> is the inherited \<^verbatim>\<open>Object\<close> function, which is truthy: the guard
  passes, mode and selected theme are overwritten, and the call of \<^verbatim>\<open>setStyleProperties\<close>
  throws.
\<close>

theorem setTheme_inherited_key:
  "setTheme ''constructor'' st =
     Inl (TypeError, st\<lparr>app := (app st)\<lparr>effect_mode := ''constructor'',
                                          theme_selected := ProtoMember ''constructor''\<rparr>\<rparr>) \<and>
   getMode (st\<lparr>app := (app st)\<lparr>effect_mode := ''constructor'',
                                theme_selected := ProtoMember ''constructor''\<rparr>\<rparr>) = ''constructor''"
  by (simp add: setTheme_def themes_lookup_def object_prototype_keys_def getMode_def)

text \<open>Where the lookup gives \<^verbatim>\<open>undefined\<close>, \<open>setTheme\<close> changes nothing.\<close>

lemma setTheme_unknown: "themes_lookup mode = Undefined \<Longrightarrow> setTheme mode st = Inr st"
  by (simp add: setTheme_def)

section \<open>Frame lemmas and the invariant\<close>

lemma setProperty_frame:
  "app (setProperty n v st) = app st" "waves (setProperty n v st) = waves st"
  "localStorage (setProperty n v w) = localStorage w" "timers (setProperty n v w) = timers w"
  "clock (setProperty n v w) = clock w" "vanta_count (setProperty n v w) = vanta_count w"
  "trace (setProperty n v w) = trace w @ [SetProperty n v]"
  by (simp_all add: setProperty_def)

lemma setStyleProperties_frame:
  "app (setStyleProperties th st) = app st" "waves (setStyleProperties th st) = waves st"
  "localStorage (setStyleProperties th w) = localStorage w"
  "timers (setStyleProperties th w) = timers w"
  "clock (setStyleProperties th w) = clock w"
  "vanta_count (setStyleProperties th w) = vanta_count w"
  by (simp_all add: setStyleProperties_def setProp_def setProperty_frame)

lemma setItem_frame:
  "app (setItem k v st) = app st" "waves (setItem k v st) = waves st"
  "style (setItem k v w) = style w" "timers (setItem k v w) = timers w"
  "clock (setItem k v w) = clock w" "vanta_count (setItem k v w) = vanta_count w"
  "trace (setItem k v w) = trace w @ [SetItem k v]"
  "localStorage (setItem k v w) = (localStorage w)(k \<mapsto> v)"
  by (simp_all add: setItem_def)

lemma createEffect_frame:
  "app (createEffect c st) = app st"
  "localStorage (createEffect c st) = localStorage st" "style (createEffect c st) = style st"
  "timers (createEffect c st) = timers st" "clock (createEffect c st) = clock st"
  "vanta_count (createEffect c st) = Suc (vanta_count st)"
  "trace (createEffect c st) = trace st @ [VantaWaves (vanta_count st) (element (waves st)) c]"
  "waves (createEffect c st) = (waves st)\<lparr>config_color := Some c,
      effect := Some \<lparr>vid = vanta_count st, vel = element (waves st), vcolor = c, opacity = None\<rparr>\<rparr>"
  by (simp_all add: createEffect_def Let_def)

lemma setProp_frame:
  "app (setProp sp st) = app st" "waves (setProp sp st) = waves st"
  "localStorage (setProp sp w) = localStorage w" "timers (setProp sp w) = timers w"
  "clock (setProp sp w) = clock w" "vanta_count (setProp sp w) = vanta_count w"
  "trace (setProp sp w) = trace w @ [SetProperty (property sp) (value sp)]"
  by (simp_all add: setProp_def setProperty_frame)

lemmas frame = setStyleProperties_frame setItem_frame createEffect_frame

lemma setStyleProperties_trace:
  "trace (setStyleProperties th w) = trace w @ style_events th"
  by (simp add: setStyleProperties_def setProp_frame style_events_def)

lemma constructor_result:
  assumes "AppTheme_constructor w = Inr st"
  shows "effect_selected (app st)" "timers st = timers w" "clock st = clock w"
    "effectDelay (waves st) = 50" "effectInterval (waves st) = 10"
    "vanta_count st = Suc (vanta_count w)"
    "effect_key (app st) = ''mode''" "zoom_key (app st) = ''zoom''"
    "zoom_step (app st) = round_double (1 / 10)" "zoom_min (app st) = Fin 1" "zoom_max (app st) = Fin 2"
    "theme_selected (app st) = themes_lookup (effect_mode (app st))"
    "\<exists>t. theme_selected (app st) = ThemeObj t \<and>
         effect (waves st) = Some \<lparr>vid = vanta_count w, vel = ''#perceive'',
            vcolor = backgroundEffectColor (get_theme t (app st)), opacity = None\<rparr>"
  using assms
  by (auto simp add: AppTheme_constructor_def Let_def frame WavesEffect_new_def get_theme_def
      split: selected.splits theme_id.splits)

lemma themes_lookup_ProtoMember: "themes_lookup m = ProtoMember k \<Longrightarrow> k = m"
  by (simp add: themes_lookup_def split: if_splits)

lemma run_callback_frame: "app (run_callback cb st) = app st"
  by (cases cb) (simp_all add: Let_def split: option.splits)

lemma fire_next_frame: "app (fire_next st) = app st"
  by (simp add: fire_next_def run_callback_frame split: option.splits prod.splits)

lemma invariant_start:
  "AppTheme_constructor w = Inr st \<Longrightarrow> timers w = [] \<Longrightarrow> effect_invariant st"
  using constructor_result [of w st] by (auto simp add: effect_invariant_def)

lemma invariant_setTheme:
  assumes "effect_invariant st" and "setTheme m st = r" and "r = Inr st' \<or> r = Inl (e, st')"
  shows "effect_invariant st'"
proof (cases "themes_lookup m")
  case Undefined
  with assms show ?thesis by (auto simp add: setTheme_def)
next
  case (ProtoMember k)
  with assms themes_lookup_ProtoMember [OF ProtoMember] show ?thesis
    by (auto simp add: setTheme_def effect_invariant_def)
next
  case (ThemeObj t)
  show ?thesis
  proof (cases "effect_selected (app st)")
    case False
    with assms ThemeObj show ?thesis
      by (auto simp add: setTheme_def effect_invariant_def isEffectActive_def Let_def frame)
  next
    case True
    with assms(1) obtain inst where "effect (waves st) = Some inst" "timers st = []"
      by (auto simp add: effect_invariant_def)
    with assms True ThemeObj show ?thesis
      by (auto simp add: setTheme_def effect_invariant_def isEffectActive_def Let_def frame
            get_theme_def split: theme_id.splits)
  qed
qed

lemma setAccentHue_frame:
  assumes "setAccentHue h th st = (th', st')"
  shows "app st' = app st" "waves st' = waves st" "timers st' = timers st" "clock st' = clock st"
    "vanta_count st' = vanta_count st"
    "backgroundEffectColor th' = backgroundEffectColor th" "hueKey th' = hueKey th"
    "themeAccent th' = update (Some h) (themeAccent th)"
    "localStorage st' = (localStorage st)(hueKey th \<mapsto> Number_toString h)"
  using assms by (auto simp add: setAccentHue_def Let_def setProp_frame setItem_frame)

lemma invariant_setThemeAccentHue:
  assumes "effect_invariant st" and "setThemeAccentHue h st = r" and "r = Inr st' \<or> r = Inl (e, st')"
  shows "effect_invariant st'"
proof (cases "theme_selected (app st)")
  case (ThemeObj t)
  obtain th' st1 where s: "setAccentHue h (get_theme t (app st)) st = (th', st1)"
    by (cases "setAccentHue h (get_theme t (app st)) st")
  with assms ThemeObj have st': "st' = st1\<lparr>app := put_theme t th' (app st1)\<rparr>"
    by (auto simp add: setThemeAccentHue_def)
  from setAccentHue_frame [OF s] assms(1) ThemeObj show ?thesis
    unfolding st' effect_invariant_def
    by (cases t) (auto simp add: put_theme_def get_theme_def)
qed (use assms in \<open>auto simp add: setThemeAccentHue_def\<close>)

lemma invariant_zoom: "effect_invariant st \<Longrightarrow> effect_invariant (zoomIn st) \<and> effect_invariant (zoomOut st)"
  by (auto simp add: effect_invariant_def zoomIn_def zoomOut_def Let_def setItem_frame get_theme_def
        split: theme_id.splits)

lemma invariant_destroyEffect:
  assumes "effect_invariant st" and "destroyEffect p st = r" and "r = Inr st' \<or> r = Inl (e, st')"
  shows "effect_invariant st'"
  using assms
  by (auto simp add: destroyEffect_def effect_invariant_def WavesEffect_destroyEffect_eq
        split: if_splits)

lemma invariant_fire_next:
  "effect_invariant st \<Longrightarrow> timers st \<noteq> [] \<Longrightarrow> effect_invariant (fire_next st)"
  by (auto simp add: effect_invariant_def fire_next_frame)

lemma reachable_invariant: "reachable st \<Longrightarrow> effect_invariant st"
proof (induction rule: reachable.induct)
  case (start w st)
  then show ?case by (rule invariant_start)
next
  case (setTheme_returns st m st')
  then show ?case using invariant_setTheme [of st m "Inr st'" st'] by simp
next
  case (setTheme_throws st m e st')
  then show ?case using invariant_setTheme [of st m "Inl (e, st')" st' e] by simp
next
  case (setThemeAccentHue_returns st h st')
  then show ?case using invariant_setThemeAccentHue [of st h "Inr st'" st'] by simp
next
  case (setThemeAccentHue_throws st h e st')
  then show ?case using invariant_setThemeAccentHue [of st h "Inl (e, st')" st' e] by simp
next
  case (zoomIn st)
  then show ?case by (simp add: invariant_zoom)
next
  case (zoomOut st)
  then show ?case by (simp add: invariant_zoom)
next
  case (destroyEffect_returns st p st')
  then show ?case using invariant_destroyEffect [of st p "Inr st'" st'] by simp
next
  case (destroyEffect_throws st p e st')
  then show ?case using invariant_destroyEffect [of st p "Inl (e, st')" st' e] by simp
next
  case (timer_fires st)
  then show ?case by (simp add: invariant_fire_next)
qed

text \<open>
  C9, at a concrete input: the page that has just constructed \<open>AppTheme\<close> with nothing
  stored.
\<close>

theorem destroyEffect_clears_handle_at_once_witness:
  "\<exists>st st1. AppTheme_constructor empty_world = Inr st \<and> isEffectActive st \<and>
      destroyEffect 7 st = Inr st1 \<and> \<not> isEffectActive st1 \<and> trace st1 = trace st \<and>
      waves st1 = waves st \<and>
      timers st1 = map (\<lambda>i. (50 * i, FadeStep)) [1..<11] @ [(500, Finish 7)]"
proof -
  obtain st where c: "AppTheme_constructor empty_world = Inr st"
    using constructor_empty_world by auto
  have a: "isEffectActive st"
    using constructor_result(1) [OF c] by (simp add: isEffectActive_def)
  from destroyEffect_clears_handle_at_once [OF a, of 7] c a constructor_result(2-5) [OF c]
  show ?thesis by (auto simp add: empty_world_def)
qed

text \<open>
  C10 (as amended).  In a state the page can reach, with the effect active and the current
  mode \<open>m\<close> a registered theme (a key of the theme registry), \<open>setTheme(m)\<close> returns and is not a no-op: the style variables are set
  again, the running effect instance is destroyed at once, a new instance (another one:
  its identity is fresh) is created with the same tint, and \<open>m\<close> is written to storage
  again.
\<close>

theorem setTheme_same_mode_restarts_effect:
  assumes "reachable st" and "themes_lookup m = ThemeObj t" and "getMode st = m"
    and "isEffectActive st"
  shows "\<exists>inst st'. effect (waves st) = Some inst \<and> setTheme m st = Inr st' \<and>
           getMode st' = m \<and> isEffectActive st' \<and>
           trace st' = trace st @ style_events (get_theme t (app st))
                       @ [VantaDestroy (vid inst),
                          VantaWaves (vanta_count st) (element (waves st)) (vcolor inst),
                          SetItem (effect_key (app st)) m] \<and>
           effect (waves st') = Some \<lparr>vid = vanta_count st, vel = element (waves st),
                                       vcolor = vcolor inst, opacity = None\<rparr> \<and>
           vid inst \<noteq> vanta_count st \<and>
           localStorage st' (effect_key (app st)) = Some m"
proof -
  from assms(1) have inv: "effect_invariant st" by (rule reachable_invariant)
  with assms(2-4) obtain inst where i: "effect (waves st) = Some inst" "vid inst < vanta_count st"
      "vcolor inst = backgroundEffectColor (get_theme t (app st))"
    by (auto simp add: effect_invariant_def isEffectActive_def getMode_def)
  have th: "get_theme t (app st\<lparr>effect_mode := m, theme_selected := ThemeObj t\<rparr>)
      = get_theme t (app st)"
    by (cases t) (simp_all add: get_theme_def)
  from i assms(2-4) th show ?thesis
    by (simp add: setTheme_def isEffectActive_def getMode_def Let_def frame
          setStyleProperties_trace)
qed

theorem setTheme_same_mode_restarts_effect_witness:
  "\<exists>st inst st'. AppTheme_constructor empty_world = Inr st \<and> getMode st = ''light'' \<and>
      isEffectActive st \<and> effect (waves st) = Some inst \<and>
      setTheme ''light'' st = Inr st' \<and>
      trace st' = trace st @ style_events (themes_light (app st))
                  @ [VantaDestroy (vid inst), VantaWaves 1 ''#perceive'' (vcolor inst),
                     SetItem ''mode'' ''light''] \<and>
      localStorage st' ''mode'' = Some ''light''"
proof -
  obtain st where c: "AppTheme_constructor empty_world = Inr st" and m: "getMode st = ''light''"
    using constructor_empty_world by auto
  have r: "reachable st" using c by (rule reachable.start) (simp add: empty_world_def)
  have l: "themes_lookup ''light'' = ThemeObj light" by (simp add: themes_lookup_def)
  have a: "isEffectActive st" using constructor_result(1) [OF c] by (simp add: isEffectActive_def)
  have w: "element (waves st) = ''#perceive''" "vanta_count st = 1" "effect_key (app st) = ''mode''"
    using constructor_result [OF c] c
    by (auto simp add: empty_world_def AppTheme_constructor_def Let_def frame WavesEffect_new_def
          split: selected.splits)
  from setTheme_same_mode_restarts_effect [OF r l m a] c m a w show ?thesis
    by (auto simp add: get_theme_def)
qed

text \<open>
  C10 as the spec states it fails when the current mode is not a registered theme.  After
  \<^verbatim>\<open>setTheme('constructor')\<close> has thrown on a fresh page, the mode is \<^verbatim>\<open>constructor\<close> and the
  effect is active; \<open>setTheme\<close> with this current mode throws again and leaves the state as
  it was: no instance is destroyed, none is created, nothing is written to storage.
\<close>

theorem same_mode_inherited_key_throws:
  "\<exists>st st1. AppTheme_constructor empty_world = Inr st \<and>
      setTheme ''constructor'' st = Inl (TypeError, st1) \<and> reachable st1 \<and>
      isEffectActive st1 \<and> getMode st1 = ''constructor'' \<and>
      setTheme (getMode st1) st1 = Inl (TypeError, st1)"
proof -
  obtain st where c: "AppTheme_constructor empty_world = Inr st"
    using constructor_empty_world by auto
  define st1 where "st1 = st\<lparr>app := (app st)\<lparr>effect_mode := ''constructor'',
      theme_selected := ProtoMember ''constructor''\<rparr>\<rparr>"
  have l: "themes_lookup ''constructor'' = ProtoMember ''constructor''"
    by (simp add: themes_lookup_def object_prototype_keys_def)
  have s: "setTheme ''constructor'' st = Inl (TypeError, st1)"
    by (simp add: setTheme_def l st1_def)
  have r: "reachable st" using c by (rule reachable.start) (simp add: empty_world_def)
  have r1: "reachable st1" using r s by (rule reachable.setTheme_throws)
  have a: "isEffectActive st1"
    using constructor_result(1) [OF c] by (simp add: isEffectActive_def st1_def)
  have m: "getMode st1 = ''constructor''" by (simp add: getMode_def st1_def)
  have "setTheme ''constructor'' st1 = Inl (TypeError, st1)"
    by (simp add: setTheme_def l st1_def)
  with c s r1 a m show ?thesis by auto
qed

section \<open>The fade and the completion callback\<close>














text \<open>
  When \<open>WavesEffect.destroyEffect\<close> is reached through \<open>AppTheme.destroyEffect\<close> in a state
  the page can reach, the handle is there and no timer is pending.
\<close>

lemma reachable_destroyEffect_idle:
  "reachable st \<Longrightarrow> isEffectActive st \<Longrightarrow>
     timers st = [] \<and> (\<exists>inst. effect (waves st) = Some inst)"
  using reachable_invariant [of st] by (auto simp add: effect_invariant_def isEffectActive_def)


section \<open>Zooming\<close>

text \<open>The literal \<^verbatim>\<open>0.1\<close> as a Number.\<close>

lemma zoom_step_value: "round_double (1 / 10) = Fin (3602879701896397 / 36028797018963968)"
  by (simp add: number_eval)

text \<open>What \<open>zoomIn\<close> does to the \<open>AppTheme\<close> object.\<close>

lemma zoomIn_app:
  "app (zoomIn st) =
     (if num_lt (zoom_factor (app st)) (zoom_max (app st))
      then (app st)\<lparr>zoom_factor := num_add (zoom_factor (app st)) (zoom_step (app st))\<rparr>
      else app st)"
  by (simp add: zoomIn_def Let_def frame)

text \<open>At a bound the call is a no-op.\<close>

lemma zoomIn_at_max: "zoom_factor (app st) = zoom_max (app st) \<Longrightarrow> zoomIn st = st"
  by (cases "zoom_max (app st)") (simp_all add: zoomIn_def)

lemma zoomOut_at_min: "zoom_factor (app st) = zoom_min (app st) \<Longrightarrow> zoomOut st = st"
  by (cases "zoom_min (app st)") (simp_all add: zoomOut_def num_gt_def)

text \<open>The ten additions of \<^verbatim>\<open>0.1\<close> that start at 1, each rounded to the nearest Number.\<close>

lemma zoomIn_additions:
  "num_add (Fin 1) (Fin (3602879701896397 / 36028797018963968)) = Fin (2476979795053773 / 2251799813685248)"
  "num_add (Fin (2476979795053773 / 2251799813685248)) (Fin (3602879701896397 / 36028797018963968)) = Fin (1351079888211149 / 1125899906842624)"
  "num_add (Fin (1351079888211149 / 1125899906842624)) (Fin (3602879701896397 / 36028797018963968)) = Fin (2927339757790823 / 2251799813685248)"
  "num_add (Fin (2927339757790823 / 2251799813685248)) (Fin (3602879701896397 / 36028797018963968)) = Fin (788129934789837 / 562949953421312)"
  "num_add (Fin (788129934789837 / 562949953421312)) (Fin (3602879701896397 / 36028797018963968)) = Fin (3377699720527873 / 2251799813685248)"
  "num_add (Fin (3377699720527873 / 2251799813685248)) (Fin (3602879701896397 / 36028797018963968)) = Fin (1801439850948199 / 1125899906842624)"
  "num_add (Fin (1801439850948199 / 1125899906842624)) (Fin (3602879701896397 / 36028797018963968)) = Fin (3828059683264923 / 2251799813685248)"
  "num_add (Fin (3828059683264923 / 2251799813685248)) (Fin (3602879701896397 / 36028797018963968)) = Fin (506654958079181 / 281474976710656)"
  "num_add (Fin (506654958079181 / 281474976710656)) (Fin (3602879701896397 / 36028797018963968)) = Fin (4278419646001973 / 2251799813685248)"
  "num_add (Fin (4278419646001973 / 2251799813685248)) (Fin (3602879701896397 / 36028797018963968)) = Fin (2251799813685249 / 1125899906842624)"
  by (simp_all add: number_eval)

text \<open>
  C2, at the failing input.  On a page with nothing stored the zoom factor starts at 1.
  Each of ten \<open>zoomIn\<close> calls (\<open>zoomIn ^^ 10\<close> is \<open>zoomIn\<close> ten times) finds the factor below \<open>max = 2\<close> and adds the step, and the
  rounding errors add up: after the tenth call the factor is
  \<open>2 + 2\<^sup>-\<^sup>5\<^sup>0\<close> (\<^verbatim>\<open>2.000000000000001\<close>), which is greater than \<open>max\<close>.
\<close>

theorem ten_zoomIn_exceed_zoom_max:
  "\<exists>st. AppTheme_constructor empty_world = Inr st \<and> getZoomFactor st = Fin 1 \<and>
      zoom_max (app st) = Fin 2 \<and>
      getZoomFactor ((zoomIn ^^ 10) st)
        = Fin (2251799813685249 / 1125899906842624) \<and>
      num_gt (getZoomFactor ((zoomIn ^^ 10) st))
        (zoom_max (app ((zoomIn ^^ 10) st)))"
proof -
  obtain st where c: "AppTheme_constructor empty_world = Inr st"
    using constructor_empty_world by auto
  have f: "zoom_factor (app st) = Fin 1"
    using c by (simp add: ctor_defs empty_world_def Let_def) auto
  have s: "zoom_step (app st) = Fin (3602879701896397 / 36028797018963968)" "zoom_max (app st) = Fin 2"
    using constructor_result(9,11) [OF c] by (simp_all add: zoom_step_value)
  define a where "a = app st"
  have z0: "app st = a\<lparr>zoom_factor := Fin 1\<rparr>"
    using f by (simp add: a_def)
  have sa: "zoom_step a = Fin (3602879701896397 / 36028797018963968)" "zoom_max a = Fin 2"
    using s by (simp_all add: a_def)
  have z1: "app (zoomIn st) = a\<lparr>zoom_factor := Fin (2476979795053773 / 2251799813685248)\<rparr>"
    by (simp add: zoomIn_app [of st] z0 sa zoomIn_additions del: num_add.simps)
  have z2: "app (zoomIn (zoomIn st)) = a\<lparr>zoom_factor := Fin (1351079888211149 / 1125899906842624)\<rparr>"
    by (simp add: zoomIn_app [of "zoomIn st"] z1 sa zoomIn_additions del: num_add.simps)
  have z3: "app (zoomIn (zoomIn (zoomIn st))) = a\<lparr>zoom_factor := Fin (2927339757790823 / 2251799813685248)\<rparr>"
    by (simp add: zoomIn_app [of "zoomIn (zoomIn st)"] z2 sa zoomIn_additions del: num_add.simps)
  have z4: "app (zoomIn (zoomIn (zoomIn (zoomIn st)))) = a\<lparr>zoom_factor := Fin (788129934789837 / 562949953421312)\<rparr>"
    by (simp add: zoomIn_app [of "zoomIn (zoomIn (zoomIn st))"] z3 sa zoomIn_additions del: num_add.simps)
  have z5: "app (zoomIn (zoomIn (zoomIn (zoomIn (zoomIn st))))) = a\<lparr>zoom_factor := Fin (3377699720527873 / 2251799813685248)\<rparr>"
    by (simp add: zoomIn_app [of "zoomIn (zoomIn (zoomIn (zoomIn st)))"] z4 sa zoomIn_additions del: num_add.simps)
  have z6: "app (zoomIn (zoomIn (zoomIn (zoomIn (zoomIn (zoomIn st)))))) = a\<lparr>zoom_factor := Fin (1801439850948199 / 1125899906842624)\<rparr>"
    by (simp add: zoomIn_app [of "zoomIn (zoomIn (zoomIn (zoomIn (zoomIn st))))"] z5 sa zoomIn_additions del: num_add.simps)
  have z7: "app (zoomIn (zoomIn (zoomIn (zoomIn (zoomIn (zoomIn (zoomIn st))))))) = a\<lparr>zoom_factor := Fin (3828059683264923 / 2251799813685248)\<rparr>"
    by (simp add: zoomIn_app [of "zoomIn (zoomIn (zoomIn (zoomIn (zoomIn (zoomIn st)))))"] z6 sa zoomIn_additions del: num_add.simps)
  have z8: "app (zoomIn (zoomIn (zoomIn (zoomIn (zoomIn (zoomIn (zoomIn (zoomIn st)))))))) = a\<lparr>zoom_factor := Fin (506654958079181 / 281474976710656)\<rparr>"
    by (simp add: zoomIn_app [of "zoomIn (zoomIn (zoomIn (zoomIn (zoomIn (zoomIn (zoomIn st))))))"] z7 sa zoomIn_additions del: num_add.simps)
  have z9: "app (zoomIn (zoomIn (zoomIn (zoomIn (zoomIn (zoomIn (zoomIn (zoomIn (zoomIn st))))))))) = a\<lparr>zoom_factor := Fin (4278419646001973 / 2251799813685248)\<rparr>"
    by (simp add: zoomIn_app [of "zoomIn (zoomIn (zoomIn (zoomIn (zoomIn (zoomIn (zoomIn (zoomIn st)))))))"] z8 sa zoomIn_additions del: num_add.simps)
  have z10: "app (zoomIn (zoomIn (zoomIn (zoomIn (zoomIn (zoomIn (zoomIn (zoomIn (zoomIn (zoomIn st)))))))))) = a\<lparr>zoom_factor := Fin (2251799813685249 / 1125899906842624)\<rparr>"
    by (simp add: zoomIn_app [of "zoomIn (zoomIn (zoomIn (zoomIn (zoomIn (zoomIn (zoomIn (zoomIn (zoomIn st))))))))"] z9 sa zoomIn_additions del: num_add.simps)
  have e: "(zoomIn ^^ 10) st = zoomIn (zoomIn (zoomIn (zoomIn (zoomIn (zoomIn (zoomIn (zoomIn (zoomIn (zoomIn st)))))))))"
    by (simp add: eval_nat_numeral)
  from c f s z10 sa show ?thesis
    by (auto simp add: e getZoomFactor_def num_gt_def)
qed

section \<open>The stored hue\<close>

subsection \<open>Logarithm and rounding\<close>

text \<open>\<open>ilog\<close> brackets its argument between two consecutive powers of the base.\<close>

lemma ilog_bounds:
  "2 \<le> b \<Longrightarrow> 1 \<le> x \<Longrightarrow>
     0 \<le> ilog b x \<and> of_nat b ^ nat (ilog b x) \<le> x \<and> x < of_nat b ^ nat (ilog b x + 1)"
proof (induction b x rule: ilog.induct)
  case (1 b x)
  have nb: "\<not> b < 2" using 1(3) by simp
  have b0: "(0::rat) < of_nat b" using 1(3) by simp
  show ?case
  proof (cases "of_nat b \<le> x")
    case True
    have x1: "1 \<le> x / of_nat b" using True b0 by (simp add: le_divide_eq)
    note ih = 1(1) [OF nb True 1(3) x1]
    have e: "ilog b x = ilog b (x / of_nat b) + 1"
      using nb True by (subst ilog.simps) simp
    define m where "m = nat (ilog b (x / of_nat b))"
    have n0: "nat (ilog b (x / of_nat b) + 1) = Suc m"
      using ih by (simp add: m_def nat_add_distrib)
    have n1: "nat (ilog b x) = Suc m" by (simp only: e n0)
    have n2: "nat (ilog b x + 1) = Suc (Suc m)"
      using ih by (simp add: e m_def nat_add_distrib)
    have p: "0 \<le> ilog b x" using ih by (simp add: e)
    from ih have lo: "of_nat b ^ m \<le> x / of_nat b" and hi: "x / of_nat b < of_nat b ^ Suc m"
      by (simp_all add: m_def n0)
    from lo b0 have "of_nat b * of_nat b ^ m \<le> x" by (simp add: le_divide_eq mult.commute)
    moreover from hi b0 have "x < of_nat b * of_nat b ^ Suc m"
      by (simp add: divide_less_eq mult.commute)
    ultimately show ?thesis using p by (simp add: n1 n2)
  next
    case False
    have e: "ilog b x = 0" using nb False 1(4) by (subst ilog.simps) simp
    show ?thesis using False 1(4) by (simp add: e)
  qed
qed

text \<open>Rounding leaves an integer as it is and commutes with the sign.\<close>

lemma round_half_even_of_int: "round_half_even (of_int z) = z"
  by (simp add: round_half_even_def)

lemma round_half_even_minus: "round_half_even (- x) = - round_half_even x"
proof -
  define f where "f = \<lfloor>x\<rfloor>"
  define d where "d = x - of_int f"
  have d: "0 \<le> d" "d < 1" by (simp_all add: d_def f_def) linarith
  show ?thesis
  proof (cases "d = 0")
    case True
    then have "x = of_int f" by (simp add: d_def)
    then show ?thesis by (simp add: round_half_even_of_int flip: of_int_minus)
  next
    case False
    have x: "x = of_int f + d" by (simp add: d_def)
    have fl: "\<lfloor>- x\<rfloor> = - f - 1"
      using d False by (simp add: x floor_eq_iff)
    have dd: "- x - of_int (- f - 1) = 1 - d" by (simp add: x)
    have a: "round_half_even x = (if d < 1 / 2 then f else if 1 / 2 < d then f + 1
        else if even f then f else f + 1)"
      by (simp add: round_half_even_def Let_def f_def d_def)
    have b: "round_half_even (- x) = (if 1 - d < 1 / 2 then - f - 1 else if 1 / 2 < 1 - d then - f
        else if even (- f - 1) then - f - 1 else - f)"
      unfolding round_half_even_def Let_def fl dd by simp
    show ?thesis unfolding a b by auto
  qed
qed

lemma round_double_minus: "round_double (- x) = num_neg (round_double x)"
  by (simp add: round_double_def Let_def round_half_even_minus)

text \<open>Every integer below \<open>2\<^sup>5\<^sup>3\<close> in magnitude is a Number value.\<close>

lemma integer_is_Number:
  fixes h :: int
  assumes "\<bar>h\<bar> < 2 ^ 53"
  shows "round_double (of_int h) = Fin (of_int h)"
proof (cases "h = 0")
  case True
  then show ?thesis by (simp add: round_double_def)
next
  case False
  define x :: rat where "x = of_int h"
  define e where "e = ilog 2 \<bar>x\<bar>"
  have x1: "1 \<le> \<bar>x\<bar>" using False by (simp add: x_def flip: of_int_abs)
  have xb: "\<bar>x\<bar> < 2 ^ 53"
    using assms unfolding x_def by (metis of_int_abs of_int_less_iff of_int_numeral of_int_power)
  from ilog_bounds [of 2 "\<bar>x\<bar>"] x1 have il: "0 \<le> e" "2 ^ nat e \<le> \<bar>x\<bar>"
    by (simp_all add: e_def)
  have e52: "e \<le> 52"
  proof (rule ccontr)
    assume "\<not> e \<le> 52"
    then have "53 \<le> nat e" by simp
    then have "(2::rat) ^ 53 \<le> 2 ^ nat e" by (intro power_increasing) simp_all
    with il(2) xb show False by simp
  qed
  define j where "j = nat (52 - e)"
  have u: "scale 2 (e - 52) = 1 / 2 ^ j"
    using e52 by (cases "e = 52") (simp_all add: scale_def j_def)
  have q: "x / (1 / 2 ^ j) = of_int (h * 2 ^ j)" by (simp add: x_def)
  have r: "of_int (round_half_even (x / (1 / 2 ^ j))) * (1 / 2 ^ j) = x"
    unfolding q round_half_even_of_int by (simp add: x_def)
  have big: "\<not> scale 2 1024 \<le> \<bar>x\<bar>"
  proof -
    have "(2::rat) ^ 53 \<le> 2 ^ 1024" by (intro power_increasing) simp_all
    with xb show ?thesis by (simp add: scale_def)
  qed
  have m: "max e (- 1022) = e" using il(1) by simp
  have "round_double x = Fin x"
    using False big unfolding round_double_def Let_def e_def [symmetric] m u r
    by (simp add: x_def)
  then show ?thesis by (simp add: x_def)
qed

subsection \<open>Digit strings\<close>

lemma less_10_cases:
  "d < 10 \<Longrightarrow> d = 0 \<or> d = 1 \<or> d = 2 \<or> d = 3 \<or> d = 4 \<or> d = 5 \<or> d = 6 \<or> d = 7 \<or> d = 8 \<or> d = (9::nat)"
  by arith

lemma digit_char_is_digit: "d < 10 \<Longrightarrow> is_digit (digit_char d)"
  using less_10_cases [of d] by (auto simp add: digit_char_def is_digit_def)

lemma digit_val_digit_char: "d < 10 \<Longrightarrow> digit_val (digit_char d) = d"
  using less_10_cases [of d] by (auto simp add: digit_char_def digit_val_def)

lemma dec_digits: "c \<in> set (dec n) \<Longrightarrow> is_digit c"
proof (induction n rule: dec.induct)
  case (1 n)
  show ?case
  proof (cases "n < 10")
    case True
    with 1(2) show ?thesis by (simp add: dec.simps [of n] digit_char_is_digit)
  next
    case False
    with 1 show ?thesis by (auto simp add: dec.simps [of n] digit_char_is_digit)
  qed
qed

lemma dec_nonempty: "dec n \<noteq> []"
  by (subst dec.simps) simp

lemma digits_value_snoc: "digits_value (ds @ [c]) = 10 * digits_value ds + digit_val c"
  by (simp add: digits_value_def)

lemma digits_value_dec: "digits_value (dec n) = n"
proof (induction n rule: dec.induct)
  case (1 n)
  show ?case
  proof (cases "n < 10")
    case True
    then show ?thesis by (simp add: dec.simps [of n] digits_value_def digit_val_digit_char)
  next
    case False
    with 1 show ?thesis
      by (simp add: dec.simps [of n] digits_value_snoc digit_val_digit_char)
  qed
qed

lemma digits_value_zeros:
  "digits_value (ds @ replicate m CHR ''0'') = digits_value ds * 10 ^ m"
proof (induction m)
  case 0
  show ?case by simp
next
  case (Suc m)
  have "ds @ replicate (Suc m) CHR ''0'' = (ds @ replicate m CHR ''0'') @ [CHR ''0'']"
    by (simp add: replicate_append_same)
  then have "digits_value (ds @ replicate (Suc m) CHR ''0'')
      = 10 * digits_value (ds @ replicate m CHR ''0'') + digit_val CHR ''0''"
    by (simp only: digits_value_snoc)
  then show ?case using Suc by (simp add: digit_val_def)
qed

lemma is_digit_plain: "is_digit c \<Longrightarrow> \<not> is_space c \<and> c \<noteq> CHR ''-'' \<and> c \<noteq> CHR ''+''"
  by (auto simp add: is_digit_def is_space_def)

lemma parseInt_digits:
  assumes "ds \<noteq> []" and "\<And>c. c \<in> set ds \<Longrightarrow> is_digit c"
  shows "parseInt ds = round_double (of_nat (digits_value ds))"
    and "parseInt (CHR ''-'' # ds) = round_double (- of_nat (digits_value ds))"
proof -
  from assms obtain c cs where ds: "ds = c # cs" by (cases ds) auto
  have c: "is_digit c" using assms(2) ds by simp
  have t: "takeWhile is_digit ds = ds" using assms(2) by (simp add: takeWhile_eq_all_conv)
  have t1: "trim_start ds = ds" using c by (simp add: trim_start_def ds is_digit_plain)
  have t2: "strip_sign ds = (False, ds)" using c by (auto simp add: ds is_digit_plain)
  show "parseInt ds = round_double (of_nat (digits_value ds))"
    using assms(1) by (simp add: parseInt_def t1 t2 t)
  have t3: "trim_start (CHR ''-'' # ds) = CHR ''-'' # ds"
    by (simp add: trim_start_def is_space_def)
  show "parseInt (CHR ''-'' # ds) = round_double (- of_nat (digits_value ds))"
    using assms(1) by (simp add: parseInt_def t3 t)
qed

subsection \<open>The string of an integer Number\<close>

text \<open>
  The search for the shortest digit string stops at the latest at the number of digits of
  the integer itself, where the candidate is the integer.
\<close>

lemma shortest_k_found:
  assumes "k \<le> m" and "m \<le> 21" and "digits_ok x n m (cand_lo x n m)"
  shows "k \<le> shortest_k x n k \<and> shortest_k x n k \<le> m \<and>
         (digits_ok x n (shortest_k x n k) (cand_lo x n (shortest_k x n k)) \<or>
          digits_ok x n (shortest_k x n k) (cand_lo x n (shortest_k x n k) + 1))"
  using assms
proof (induction "m - k" arbitrary: k)
  case 0
  then have "k = m" by simp
  with 0 show ?case by (subst (1 2 3 4 5 6) shortest_k.simps) simp
next
  case (Suc d)
  then have km: "k < m" by simp
  show ?case
  proof (cases "digits_ok x n k (cand_lo x n k) \<or> digits_ok x n k (cand_lo x n k + 1)")
    case True
    then have "shortest_k x n k = k" by (subst shortest_k.simps) auto
    with True km show ?thesis by auto
  next
    case False
    with km Suc.prems have e: "shortest_k x n k = shortest_k x n (Suc k)"
      by (subst shortest_k.simps) auto
    have "d = m - Suc k" using Suc(2) by simp
    from Suc(1) [OF this] km Suc.prems
    show ?thesis unfolding e by auto
  qed
qed

lemma pick_digits_ok:
  assumes "digits_ok x n k (cand_lo x n k) \<or> digits_ok x n k (cand_lo x n k + 1)"
  shows "digits_ok x n k (pick_digits x n k) \<and>
         (pick_digits x n k = cand_lo x n k \<or> pick_digits x n k = cand_lo x n k + 1)"
  using assms by (auto simp add: pick_digits_def Let_def)

text \<open>\<open>10\<^sup>2\<^sup>1\<close> is a Number value.\<close>

lemma round_double_1e21:
  "round_double 1000000000000000000000 = Fin 1000000000000000000000"
  by (simp add: number_eval)

text \<open>
  A positive integer Number below \<open>10\<^sup>2\<^sup>1\<close> prints as a string of decimal digits whose value
  rounds to it.
\<close>

lemma toString_integer_digits:
  fixes h :: int
  assumes h1: "1 \<le> h" and h21: "h < 10 ^ 21"
    and rep: "round_double (of_int h) = Fin (of_int h)"
  shows "\<exists>ds. format_digits (shortest_digits (of_int h)) = ds \<and> ds \<noteq> [] \<and>
           (\<forall>c \<in> set ds. is_digit c) \<and>
           round_double (of_nat (digits_value ds)) = Fin (of_int h)"
proof -
  define x :: rat where "x = of_int h"
  define n where "n = ilog 10 x + 1"
  define m where "m = nat n"
  have x1: "1 \<le> x" using h1 by (simp add: x_def)
  have xh: "x < 10 ^ 21"
    using h21 unfolding x_def by (metis of_int_less_iff of_int_numeral of_int_power)
  from ilog_bounds [of 10 x] x1
  have il: "0 \<le> ilog 10 x" "10 ^ nat (ilog 10 x) \<le> x" "x < 10 ^ nat (ilog 10 x + 1)"
    by simp_all
  have m1: "1 \<le> m" "int m = n" "nat (ilog 10 x) = m - 1"
    using il(1) by (simp_all add: m_def n_def)
  have nm: "n = int m" by (simp add: m1)
  have m21: "m \<le> 21"
  proof (rule ccontr)
    assume "\<not> m \<le> 21"
    then have "21 \<le> m - 1" by simp
    then have "(10::rat) ^ 21 \<le> 10 ^ (m - 1)" by (intro power_increasing) simp_all
    with il(2) xh show False by (simp add: m1)
  qed
  have lo_x: "10 ^ (m - 1) \<le> x" using il(2) by (simp add: m1)
  have sc: "scale 10 (n - int k) = 10 ^ (m - k)" if "k \<le> m" for k
    using that by (simp add: scale_def nm)
  have cm: "cand_lo x n m = h"
    by (simp add: cand_lo_def sc x_def)
  have okm: "digits_ok x n m (cand_lo x n m)"
    unfolding digits_ok_def cm using rep by (simp add: sc x_def)
  define k where "k = shortest_k x n 1"
  from shortest_k_found [OF m1(1) m21 okm]
  have k: "1 \<le> k" "k \<le> m"
    "digits_ok x n k (cand_lo x n k) \<or> digits_ok x n k (cand_lo x n k + 1)"
    by (simp_all add: k_def)
  define s where "s = pick_digits x n k"
  from pick_digits_ok [OF k(3)]
  have s: "digits_ok x n k s" "s = cand_lo x n k \<or> s = cand_lo x n k + 1"
    by (simp_all add: s_def)
  have pw: "(10::rat) ^ (k - 1) * 10 ^ (m - k) = 10 ^ (m - 1)"
    using k by (simp flip: power_add)
  have "of_int (10 ^ (k - 1)) \<le> x / 10 ^ (m - k)"
    using lo_x pw by (simp add: le_divide_eq)
  then have lo: "10 ^ (k - 1) \<le> cand_lo x n k"
    unfolding cand_lo_def sc [OF k(2)] by (simp only: le_floor_iff)
  have s1: "1 \<le> s"
  proof -
    have "(1::int) \<le> 10 ^ (k - 1)" by simp
    with lo s(2) show ?thesis by linarith
  qed
  have v: "round_double (of_int s * 10 ^ (m - k)) = Fin x"
    using s(1) by (simp add: digits_ok_def sc [OF k(2)])
  have z: "is_digit CHR ''0''" by (simp add: is_digit_def)
  have d: "\<forall>c \<in> set (dec j @ replicate i CHR ''0''). is_digit c" for i j
    using z by (auto simp add: dec_digits)
  have "format_digits (shortest_digits x) \<noteq> [] \<and>
      (\<forall>c \<in> set (format_digits (shortest_digits x)). is_digit c) \<and>
      round_double (of_nat (digits_value (format_digits (shortest_digits x)))) = Fin x"
  proof (cases "s = 10 ^ k")
    case True
    have m20: "m \<le> 20"
    proof (rule ccontr)
      assume "\<not> m \<le> 20"
      with m21 have m: "m = 21" by simp
      have "(of_int s :: rat) * 10 ^ (m - k) = 10 ^ k * 10 ^ (m - k)"
        by (simp add: True)
      also have "\<dots> = 10 ^ 21" using k(2) by (simp add: m flip: power_add)
      finally have "round_double (10 ^ 21) = Fin x" using v by simp
      with round_double_1e21 xh show False by simp
    qed
    have sd: "shortest_digits x = (10 ^ (k - 1), n + 1, k)"
      unfolding shortest_digits_def Let_def n_def [symmetric] k_def [symmetric] s_def [symmetric]
      using True by simp
    have fm: "format_digits (shortest_digits x)
        = dec (10 ^ (k - 1)) @ replicate (Suc m - k) CHR ''0''"
    proof -
      have c1: "int k \<le> n + 1" "n + 1 \<le> 21" using k m20 nm by simp_all
      have c2: "nat (n + 1 - int k) = Suc m - k" using k nm by simp
      from c1 c2 show ?thesis by (simp add: sd format_digits_def Let_def nat_power_eq)
    qed
    have "(of_nat (10 ^ (k - 1) * 10 ^ (Suc m - k)) :: rat) = of_int s * 10 ^ (m - k)"
    proof -
      have "(10::nat) ^ (k - 1) * 10 ^ (Suc m - k) = 10 ^ k * 10 ^ (m - k)"
        using k by (simp flip: power_add)
      then show ?thesis by (simp add: True)
    qed
    with v have "round_double (of_nat (digits_value (format_digits (shortest_digits x)))) = Fin x"
      by (simp only: fm digits_value_zeros digits_value_dec)
    with d show ?thesis by (simp add: fm dec_nonempty)
  next
    case False
    have sd: "shortest_digits x = (s, n, k)"
      unfolding shortest_digits_def Let_def n_def [symmetric] k_def [symmetric] s_def [symmetric]
      using False by simp
    have fm: "format_digits (shortest_digits x) = dec (nat s) @ replicate (m - k) CHR ''0''"
    proof -
      have c1: "int k \<le> n" "n \<le> 21" using k m21 nm by simp_all
      have c2: "nat (n - int k) = m - k" using k nm by simp
      from c1 c2 show ?thesis by (simp add: sd format_digits_def Let_def)
    qed
    have "(of_nat (nat s * 10 ^ (m - k)) :: rat) = of_int s * 10 ^ (m - k)"
      using s1 by simp
    with v have "round_double (of_nat (digits_value (format_digits (shortest_digits x)))) = Fin x"
      by (simp only: fm digits_value_zeros digits_value_dec)
    with d show ?thesis by (simp add: fm dec_nonempty)
  qed
  then show ?thesis by (simp add: x_def)
qed

subsection \<open>Storing the hue and loading it again\<close>

lemma parseInt_toString_integer:
  fixes h :: int
  assumes b: "\<bar>h\<bar> < 10 ^ 21" and rep: "round_double (of_int h) = Fin (of_int h)"
  shows "parseInt (Number_toString (Fin (of_int h))) = Fin (of_int h) \<and>
         Number_toString (Fin (of_int h)) \<noteq> []"
proof -
  consider "h = 0" | "1 \<le> h" | "h \<le> - 1" by linarith
  then show ?thesis
  proof cases
    case 1
    have "parseInt ''0'' = Fin 0" by (simp add: parse_eval round_double_def)
    with 1 show ?thesis by (simp add: toString_0)
  next
    case 2
    have t: "Number_toString (Fin (of_int h)) = format_digits (shortest_digits (of_int h))"
      using 2 by (simp add: Number_toString.simps)
    from toString_integer_digits [OF 2 _ rep] b 2
    have d: "format_digits (shortest_digits (of_int h)) \<noteq> []"
      "\<And>c. c \<in> set (format_digits (shortest_digits (of_int h))) \<Longrightarrow> is_digit c"
      "round_double (of_nat (digits_value (format_digits (shortest_digits (of_int h)))))
         = Fin (of_int h)"
      by simp_all
    from parseInt_digits(1) [OF d(1,2)] d(1,3) show ?thesis by (simp add: t)
  next
    case 3
    have t: "Number_toString (Fin (of_int h))
        = CHR ''-'' # format_digits (shortest_digits (of_int (- h)))"
      using 3 by (simp add: Number_toString.simps)
    have p: "1 \<le> - h" "- h < 10 ^ 21" using 3 b by simp_all
    have r: "round_double (of_int (- h)) = Fin (of_int (- h))"
      using rep by (simp add: round_double_minus)
    from toString_integer_digits [OF p r]
    have d: "format_digits (shortest_digits (of_int (- h))) \<noteq> []"
      "\<And>c. c \<in> set (format_digits (shortest_digits (of_int (- h)))) \<Longrightarrow> is_digit c"
      "round_double (of_nat (digits_value (format_digits (shortest_digits (of_int (- h))))))
         = Fin (of_int (- h))"
      by simp_all
    from parseInt_digits(2) [OF d(1,2)] d(3) show ?thesis
      by (simp add: t round_double_minus)
  qed
qed

lemma getItem_setItem: "getItem k (setItem k v w) = Some v"
  by (simp add: getItem_def setItem_def)

lemma hue_survives_reload:
  fixes h :: int
  assumes "\<bar>h\<bar> < 10 ^ 21" and "round_double (of_int h) = Fin (of_int h)"
  shows "getAccentHue (hueKey th) (snd (setAccentHue (Fin (of_int h)) th w)) = Fin (of_int h)"
  using parseInt_toString_integer [OF assms]
  by (simp add: setAccentHue_def Let_def getAccentHue_def getItem_setItem)

text \<open>
  C4 (as amended).  Let \<open>h\<close> be an integer hue with \<open>\<bar>h\<bar> < 2\<^sup>5\<^sup>3\<close>, or an integer Number value
  with \<open>\<bar>h\<bar> < 10\<^sup>2\<^sup>1\<close>.  After \<open>setAccentHue(h)\<close>, \<open>getAccentHue\<close> reads \<open>h\<close> back from
  storage, and the theme constructed anew from that storage (\<open>LightTheme\<close> or \<open>DarkTheme\<close>)
  has the accent colour string that the theme had when the hue was set.
\<close>

theorem accent_hue_round_trip:
  fixes h :: int
  assumes "\<bar>h\<bar> < 2 ^ 53 \<or> \<bar>h\<bar> < 10 ^ 21 \<and> round_double (of_int h) = Fin (of_int h)"
  shows "getAccentHue (hueKey th) (snd (setAccentHue (Fin (of_int h)) th w)) = Fin (of_int h) \<and>
         value (themeAccent (LightTheme (snd (setAccentHue (Fin (of_int h)) (LightTheme w0) w))))
           = value (themeAccent (fst (setAccentHue (Fin (of_int h)) (LightTheme w0) w))) \<and>
         value (themeAccent (DarkTheme (snd (setAccentHue (Fin (of_int h)) (DarkTheme w0) w))))
           = value (themeAccent (fst (setAccentHue (Fin (of_int h)) (DarkTheme w0) w)))"
proof -
  have "(2::int) ^ 53 < 10 ^ 21" by simp
  with assms have hb: "\<bar>h\<bar> < 10 ^ 21" by linarith
  from assms have hr: "round_double (of_int h) = Fin (of_int h)"
    using integer_is_Number [of h] by blast
  note r = hue_survives_reload [OF hb hr]
  have l: "hueKey (LightTheme w0) = ''light-accent-hue''" by (simp add: LightTheme_def)
  have d: "hueKey (DarkTheme w0) = ''dark-accent-hue''" by (simp add: DarkTheme_def)
  have a: "value (themeAccent (LightTheme w1)) = hsl (getAccentHue ''light-accent-hue'' w1) (Fin 100) (Fin 60)"
    for w1 :: "'a world_scheme"
    by (simp add: LightTheme_def ThemeAccentProperty_new_def Let_def)
  have b: "value (themeAccent (DarkTheme w1)) = hsl (getAccentHue ''dark-accent-hue'' w1) (Fin 100) (Fin 60)"
    for w1 :: "'a world_scheme"
    by (simp add: DarkTheme_def ThemeAccentProperty_new_def Let_def)
  have a1: "value (themeAccent (fst (setAccentHue x (LightTheme w0) w))) = hsl x (Fin 100) (Fin 60)" for x
    by (simp add: setAccentHue_def Let_def update_def LightTheme_def ThemeAccentProperty_new_def)
  have b1: "value (themeAccent (fst (setAccentHue x (DarkTheme w0) w))) = hsl x (Fin 100) (Fin 60)" for x
    by (simp add: setAccentHue_def Let_def update_def DarkTheme_def ThemeAccentProperty_new_def)
  from r [of th w] r [of "LightTheme w0" w] r [of "DarkTheme w0" w]
  show ?thesis by (simp add: a b a1 b1 l d)
qed

lemma toString_200: "Number_toString (Fin 200) = ''200''"
  by (simp add: number_eval toString_eval)

text \<open>
  C4 (as amended), at a concrete input: the hue 200 set on the light theme of a page with
  nothing stored.
\<close>

theorem accent_hue_round_trip_witness:
  "\<bar>200 :: int\<bar> < 2 ^ 53 \<and>
   getAccentHue ''light-accent-hue''
     (snd (setAccentHue (Fin 200) (LightTheme empty_world) empty_world)) = Fin 200 \<and>
   value (themeAccent (fst (setAccentHue (Fin 200) (LightTheme empty_world) empty_world)))
     = ''hsl(200, 100%, 60%)'' \<and>
   value (themeAccent (LightTheme (snd (setAccentHue (Fin 200) (LightTheme empty_world) empty_world))))
     = ''hsl(200, 100%, 60%)''"
proof -
  have b: "\<bar>200 :: int\<bar> < 2 ^ 53 \<or> \<bar>200 :: int\<bar> < 10 ^ 21 \<and> round_double (of_int 200) = Fin (of_int 200)"
    by simp
  have v: "value (themeAccent (fst (setAccentHue (Fin 200) (LightTheme empty_world) empty_world)))
      = ''hsl(200, 100%, 60%)''"
    by (simp add: setAccentHue_def Let_def update_def LightTheme_def ThemeAccentProperty_new_def
          hsl_100_60 toString_200)
  have k: "hueKey (LightTheme empty_world) = ''light-accent-hue''" by (simp add: LightTheme_def)
  from accent_hue_round_trip [OF b, of "LightTheme empty_world" empty_world empty_world] v
  show ?thesis by (simp add: k)
qed

lemma toString_1e21: "Number_toString (Fin 1000000000000000000000) = ''1e+21''"
  by (simp add: number_eval toString_eval)

lemma toString_1: "Number_toString (Fin 1) = ''1''"
  by (simp add: number_eval toString_eval)

lemma parseInt_1e21: "parseInt ''1e+21'' = Fin 1"
  by (simp add: parse_eval number_eval)

text \<open>
  C4 as the spec states it fails for the integer hue \<open>10\<^sup>2\<^sup>1\<close>: its string is \<^verbatim>\<open>1e+21\<close>, of
  which \<^verbatim>\<open>parseInt\<close> reads the leading \<^verbatim>\<open>1\<close>, so the reloaded theme has the colour of hue 1.
\<close>

theorem accent_hue_1e21_not_restored:
  "round_double (10 ^ 21) = Fin (10 ^ 21) \<and>
   value (themeAccent (fst (setAccentHue (Fin (10 ^ 21)) (LightTheme empty_world) empty_world)))
     = ''hsl(1e+21, 100%, 60%)'' \<and>
   value (themeAccent (LightTheme (snd (setAccentHue (Fin (10 ^ 21)) (LightTheme empty_world) empty_world))))
     = ''hsl(1, 100%, 60%)'' \<and>
   value (themeAccent (LightTheme (snd (setAccentHue (Fin (10 ^ 21)) (LightTheme empty_world) empty_world))))
     \<noteq> value (themeAccent (fst (setAccentHue (Fin (10 ^ 21)) (LightTheme empty_world) empty_world)))"
proof -
  have a: "value (themeAccent (fst (setAccentHue (Fin 1000000000000000000000) (LightTheme empty_world) empty_world)))
      = ''hsl(1e+21, 100%, 60%)''"
    by (simp add: setAccentHue_def Let_def update_def LightTheme_def ThemeAccentProperty_new_def
          hsl_100_60 toString_1e21)
  have b: "value (themeAccent (LightTheme (snd (setAccentHue (Fin 1000000000000000000000) (LightTheme empty_world) empty_world))))
      = ''hsl(1, 100%, 60%)''"
    by (simp add: setAccentHue_def Let_def LightTheme_def ThemeAccentProperty_new_def
          hsl_100_60 getAccentHue_def getItem_setItem toString_1e21 parseInt_1e21 toString_1)
  from a b round_double_1e21 show ?thesis by simp
qed

end
